theory Spec2Isabelle
  imports Main "HOL-Library.AList"
begin

section \<open>Python values, dictionaries and the object store\<close>

text \<open>
  The module \<^verbatim>\<open>logger_config/core.py\<close> works on configuration dictionaries whose values
  are \<^verbatim>\<open>None\<close>, booleans, integers (the logging levels), strings and nested dictionaries
  (\<^verbatim>\<open>disabled_loggers\<close>). Dictionaries are the only mutable objects it handles, so a value
  is either immutable data or a reference into a store of dictionary objects. A dictionary
  is an association list in insertion order with pairwise distinct keys, as Python keeps it.
  Keys are strings. What the module prints, the records it logs in \<^verbatim>\<open>demo_logger\<close> and
  the import of its own dependencies are not part of the model.
\<close>

type_synonym addr = nat

datatype pyval = PNone | PBool bool | PInt int | PStr string | PRef addr

type_synonym dict = "(string \<times> pyval) list"

type_synonym heap = "dict list"

datatype error =
    UnboundLocalError
  | KeyError string
  | ValueError
  | TypeError
  | AttributeError
  | OSError
  | LookupError
  | RetentionCleanupError
  | SystemExit

definition deref :: "heap \<Rightarrow> addr \<Rightarrow> dict" where
  "deref h a = (if a < length h then h ! a else [])"

definition alloc :: "heap \<Rightarrow> dict \<Rightarrow> addr \<times> heap" where
  "alloc h d = (length h, h @ [d])"

text \<open>\<^verbatim>\<open>d[k]\<close>: a missing key raises KeyError.\<close>

definition getitem :: "dict \<Rightarrow> string \<Rightarrow> error + pyval" where
  "getitem d k = (case map_of d k of None \<Rightarrow> Inl (KeyError k) | Some v \<Rightarrow> Inr v)"

text \<open>
  \<^verbatim>\<open>d.update(c)\<close>: the items of \<^verbatim>\<open>c\<close> in order; a key already present keeps its
  position and takes the new value, a new key is appended.
\<close>

definition dict_update :: "dict \<Rightarrow> dict \<Rightarrow> dict" where
  "dict_update d c = fold (\<lambda>(k, v). AList.update k v) c d"

text \<open>A dictionary display \<^verbatim>\<open>{k1: v1, k2: v2, ...}\<close>: a repeated key keeps its last value.\<close>

definition dict_literal :: "(string \<times> pyval) list \<Rightarrow> dict" where
  "dict_literal items = dict_update [] items"

text \<open>Python truth value testing, as \<^verbatim>\<open>if x\<close> and \<^verbatim>\<open>not x\<close> apply it.\<close>

fun truthy :: "heap \<Rightarrow> pyval \<Rightarrow> bool" where
  "truthy h PNone = False"
| "truthy h (PBool b) = b"
| "truthy h (PInt i) = (i \<noteq> 0)"
| "truthy h (PStr s) = (s \<noteq> [])"
| "truthy h (PRef a) = (deref h a \<noteq> [])"

text \<open>An argument that must be a \<^verbatim>\<open>str\<close> (a path segment, a strftime format).\<close>

fun as_str :: "pyval \<Rightarrow> error + string" where
  "as_str (PStr s) = Inr s"
| "as_str _ = Inl TypeError"

section \<open>The standard library, as far as the module uses it\<close>

subsection \<open>logging levels\<close>

definition DEBUG :: int where "DEBUG = 10"
definition INFO :: int where "INFO = 20"
definition WARNING :: int where "WARNING = 30"

definition nameToLevel :: "(string \<times> int) list" where
  "nameToLevel =
     [(''CRITICAL'', 50), (''FATAL'', 50), (''ERROR'', 40), (''WARN'', 30),
      (''WARNING'', 30), (''INFO'', 20), (''DEBUG'', 10), (''NOTSET'', 0)]"

text \<open>
  \<^verbatim>\<open>logging._checkLevel\<close>, which every \<^verbatim>\<open>setLevel\<close> calls: an int (a bool is an int)
  is taken as it is, a string must be a level name, anything else is a TypeError.
\<close>

fun checkLevel :: "pyval \<Rightarrow> error + int" where
  "checkLevel (PInt i) = Inr i"
| "checkLevel (PBool b) = Inr (if b then 1 else 0)"
| "checkLevel (PStr s) =
     (case map_of nameToLevel s of None \<Rightarrow> Inl ValueError | Some n \<Rightarrow> Inr n)"
| "checkLevel _ = Inl TypeError"

subsection \<open>datetime.strftime\<close>

record datetime =
  year :: nat
  month :: nat
  day :: nat
  hour :: nat
  minute :: nat
  second :: nat

definition digit :: "nat \<Rightarrow> char" where
  "digit n = ''0123456789'' ! (n mod 10)"

definition pad2 :: "nat \<Rightarrow> string" where
  "pad2 n = [digit (n div 10), digit n]"

definition pad4 :: "nat \<Rightarrow> string" where
  "pad4 n = [digit (n div 1000), digit (n div 100), digit (n div 10), digit n]"

text \<open>
  \<^verbatim>\<open>strftime\<close> hands its format to the platform's C library. What that returns is fixed
  by the C standard for a simple format: one made of the directives the default formats
  use (\<^verbatim>\<open>%Y %m %d %H %M %S\<close>), of \<^verbatim>\<open>%%\<close> and of ordinary characters, which are copied.
  Such a format is rendered here. Any other format (another directive, a flag or a modifier
  as in \<^verbatim>\<open>%-d\<close> or \<^verbatim>\<open>%Ey\<close>, a character outside the ordinary ones, a trailing
  \<^verbatim>\<open>%\<close>) is left to the platform as a whole: the model takes the platform's answer for
  the format, a string or an error, as the parameter \<open>platform\<close>.
\<close>

definition known_directive :: "char \<Rightarrow> bool" where
  "known_directive c = (c \<in> set ''YmdHMS%'')"

definition ordinary :: "char \<Rightarrow> bool" where
  "ordinary c =
     (c \<in> set ''abcdefghijklmnopqrstuvwxyzABCDEFGHIJKLMNOPQRSTUVWXYZ0123456789 -_.:/,'')"

fun simple_format :: "string \<Rightarrow> bool" where
  "simple_format [] = True"
| "simple_format [c] = ordinary c"
| "simple_format (c # d # cs) =
     (if c = CHR ''%'' then known_directive d \<and> simple_format cs
      else ordinary c \<and> simple_format (d # cs))"

definition directive :: "datetime \<Rightarrow> char \<Rightarrow> string" where
  "directive t c =
     (if c = CHR ''Y'' then pad4 (year t)
      else if c = CHR ''m'' then pad2 (month t)
      else if c = CHR ''d'' then pad2 (day t)
      else if c = CHR ''H'' then pad2 (hour t)
      else if c = CHR ''M'' then pad2 (minute t)
      else if c = CHR ''S'' then pad2 (second t)
      else ''%'')"

text \<open>The rendering of a simple format.\<close>

fun render :: "datetime \<Rightarrow> string \<Rightarrow> string" where
  "render t [] = []"
| "render t [c] = [c]"
| "render t (c # d # cs) =
     (if c = CHR ''%'' then directive t d @ render t cs
      else c # render t (d # cs))"

definition strftime :: "(string \<Rightarrow> error + string) \<Rightarrow> datetime \<Rightarrow> string \<Rightarrow> error + string" where
  "strftime platform t f = (if simple_format f then Inr (render t f) else platform f)"

subsection \<open>os.path (POSIX flavour, the one the specification's paths are written in)\<close>

definition join2 :: "string \<Rightarrow> string \<Rightarrow> string" where
  "join2 a b =
     (if b \<noteq> [] \<and> hd b = CHR ''/'' then b
      else if a = [] \<or> last a = CHR ''/'' then a @ b
      else a @ ''/'' @ b)"

definition os_path_join :: "string \<Rightarrow> string list \<Rightarrow> string" where
  "os_path_join a ps = foldl join2 a ps"

definition isabs :: "string \<Rightarrow> bool" where
  "isabs p = (p \<noteq> [] \<and> hd p = CHR ''/'')"

subsection \<open>What the outside world answers\<close>

text \<open>
  Whether the retention cleaner, the file system and the formatter accept a call is not
  decided by this module. Each call of \<open>setup_logger\<close> is given the answers of its
  collaborators: \<open>None\<close> when the call returns, \<open>Some e\<close> when it raises \<open>e\<close>.
  \<open>clean_logs\<close> is \<^verbatim>\<open>nodes.record.log_cleaner.clean_logs\<close>, which is not part of
  the source at hand.
\<close>

record lib =
  clean_logs :: "pyval \<Rightarrow> error option"
  os_makedirs :: "string \<Rightarrow> error option"
  open_log_file :: "string \<Rightarrow> pyval \<Rightarrow> error option"
  check_format :: "pyval \<Rightarrow> error option"
  now :: datetime
  strftime_ext :: "string \<Rightarrow> error + string"

section \<open>The process state\<close>

datatype effect = CleanLogs pyval | MakeDirs string | OpenFile string pyval

datatype handler = FileHandler string pyval int pyval | StreamHandler int pyval

text \<open>
  \<open>objects\<close> is the store of dictionary objects, \<open>DEFAULT_CONFIG\<close> the module's global
  name (bound by \<open>load_module\<close>), \<open>root_level\<close> and \<open>root_handlers\<close> the root logger,
  \<open>logger_levels\<close> the levels set on named loggers, \<open>effects\<close> the calls made to the
  retention cleaner and the file system, in order. \<open>dirs\<close> are the directories
  \<^verbatim>\<open>os.chdir\<close> can enter and \<open>dotenv_file\<close> the bindings of the \<^verbatim>\<open>.env\<close> file that
  \<^verbatim>\<open>load_dotenv\<close> finds; directory names stand for normalised paths.
\<close>

record state =
  objects :: heap
  DEFAULT_CONFIG :: addr
  environ :: "(string \<times> string) list"
  dotenv_file :: "(string \<times> string) list"
  cwd :: string
  dirs :: "string list"
  root_level :: int
  root_handlers :: "handler list"
  logger_levels :: "(string \<times> int) list"
  effects :: "effect list"

record run_info =
  log_file :: string
  log_dir :: string
  config :: addr

section \<open>Module load (lines 16 to 58)\<close>

definition WORKING_DIR :: string where
  "WORKING_DIR = ''D:'' @ [CHR 0x5C] @ ''1VSCODE'' @ [CHR 0x5C] @ ''GlowToolBox''"

definition chdir :: "string \<Rightarrow> state \<Rightarrow> error + state" where
  "chdir path s = (if path \<in> set (dirs s) then Inr (s\<lparr>cwd := path\<rparr>) else Inl OSError)"

text \<open>\<^verbatim>\<open>dotenv.load_dotenv()\<close>: a variable the environment already has is not overridden.\<close>

definition load_dotenv :: "(string \<times> string) list \<Rightarrow> (string \<times> string) list \<Rightarrow> (string \<times> string) list" where
  "load_dotenv env file =
     fold (\<lambda>(k, v) e. if k \<in> fst ` set e then e else e @ [(k, v)]) file env"

definition getenv :: "(string \<times> string) list \<Rightarrow> string \<Rightarrow> string \<Rightarrow> string" where
  "getenv env k dflt = (case map_of env k of None \<Rightarrow> dflt | Some v \<Rightarrow> v)"

definition default_disabled_loggers :: dict where
  "default_disabled_loggers = dict_literal
     [(''PIL'', PInt WARNING),
      (''urllib3'', PInt WARNING),
      (''fsspec'', PInt WARNING),
      (''PIL'', PInt WARNING),
      (''urllib3'', PInt WARNING),
      (''requests'', PInt WARNING),
      (''chardet'', PInt WARNING),
      (''vipshome'', PInt WARNING),
      (''pyvips'', PInt WARNING)]"

definition default_config :: "string \<Rightarrow> addr \<Rightarrow> dict" where
  "default_config log_path_env disabled = dict_literal
     [(''script_name'', PNone),
      (''console_enabled'', PBool True),
      (''log_path'', PStr log_path_env),
      (''date_format'', PStr ''%Y%m%d''),
      (''time_format'', PStr ''%H''),
      (''file_format'', PStr ''%M%S''),
      (''encoding'', PStr ''utf-8''),
      (''formatter'', PStr ''%(asctime)s - %(levelname)s - %(message)s''),
      (''file_level'', PInt DEBUG),
      (''console_level'', PInt INFO),
      (''disabled_loggers'', PRef disabled)]"

text \<open>
  Lines 19 to 25: when the working directory is not \<open>WORKING_DIR\<close> the module changes to
  it, and any failure of that becomes SystemExit. Lines 27 to 58: the \<^verbatim>\<open>.env\<close> file is
  loaded, then \<open>DEFAULT_CONFIG\<close> is built, reading \<^verbatim>\<open>LOG_PATH\<close> once.
\<close>

definition switch_working_dir :: "state \<Rightarrow> error + state" where
  "switch_working_dir s =
     (if cwd s \<noteq> WORKING_DIR then
        (case chdir WORKING_DIR s of Inl e \<Rightarrow> Inl SystemExit | Inr s' \<Rightarrow> Inr s')
      else Inr s)"

definition build_default_config :: "state \<Rightarrow> state" where
  "build_default_config s =
     (let (disabled, h1) = alloc (objects s) default_disabled_loggers;
          (dc, h2) = alloc h1 (default_config (getenv (environ s) ''LOG_PATH'' ''logs'') disabled)
      in s\<lparr>objects := h2, DEFAULT_CONFIG := dc\<rparr>)"

definition load_module :: "state \<Rightarrow> error + state" where
  "load_module s =
     (case switch_working_dir s of
        Inl e \<Rightarrow> Inl e
      | Inr s1 \<Rightarrow>
          Inr (build_default_config
                 (s1\<lparr>environ := load_dotenv (environ s1) (dotenv_file s1)\<rparr>)))"

section \<open>setup_logger (lines 60 to 137)\<close>

text \<open>
  A statement either raises or returns a value, and leaves a state behind in both cases.
\<close>

type_synonym 'a step = "state \<Rightarrow> (error + 'a) \<times> state"

definition and_then :: "'a step \<Rightarrow> ('a \<Rightarrow> 'b step) \<Rightarrow> 'b step" where
  "and_then m f s = (case m s of (Inl e, s') \<Rightarrow> (Inl e, s') | (Inr x, s') \<Rightarrow> f x s')"

definition lift :: "error + 'a \<Rightarrow> 'a step" where
  "lift r s = (r, s)"

definition modify :: "(state \<Rightarrow> state) \<Rightarrow> unit step" where
  "modify f s = (Inr (), f s)"

definition record_effect :: "effect \<Rightarrow> state \<Rightarrow> state" where
  "record_effect e s = s\<lparr>effects := effects s @ [e]\<rparr>"

text \<open>\<^verbatim>\<open>config and 'log_path' in config\<close>, for \<^verbatim>\<open>config\<close> either None or a dictionary.\<close>

fun supplies :: "dict option \<Rightarrow> string \<Rightarrow> bool" where
  "supplies None k = False"
| "supplies (Some c) k = (c \<noteq> [] \<and> k \<in> fst ` set c)"

text \<open>
  Line 76, the argument of \<^verbatim>\<open>clean_logs\<close>. \<^verbatim>\<open>cfg\<close> is a local variable of the function
  (line 79 assigns it), so reading it on line 76 raises UnboundLocalError.
\<close>

definition clean_root :: "dict option \<Rightarrow> state \<Rightarrow> error + pyval" where
  "clean_root conf s =
     (if supplies conf ''log_path'' then Inl UnboundLocalError
      else getitem (deref (objects s) (DEFAULT_CONFIG s)) ''log_path'')"

text \<open>The call of the cleaner: it is recorded whether it returns or raises.\<close>

definition call_clean_logs :: "lib \<Rightarrow> pyval \<Rightarrow> unit step" where
  "call_clean_logs L root s =
     (case clean_logs L root of
        Some e \<Rightarrow> (Inl e, record_effect (CleanLogs root) s)
      | None \<Rightarrow> (Inr (), record_effect (CleanLogs root) s))"

text \<open>Lines 79 to 81: a shallow copy of the defaults, updated when \<^verbatim>\<open>config\<close> is truthy.\<close>

fun merged :: "dict \<Rightarrow> dict option \<Rightarrow> dict" where
  "merged d None = d"
| "merged d (Some c) = (if c \<noteq> [] then dict_update d c else d)"

definition merged_config :: "dict option \<Rightarrow> state \<Rightarrow> dict" where
  "merged_config conf s = merged (deref (objects s) (DEFAULT_CONFIG s)) conf"

definition merge_config :: "dict option \<Rightarrow> addr step" where
  "merge_config conf s =
     (let (cfg, h) = alloc (objects s) (merged_config conf s)
      in (Inr cfg, s\<lparr>objects := h\<rparr>))"

text \<open>Lines 84 and 85.\<close>

definition check_script_name :: "addr \<Rightarrow> unit step" where
  "check_script_name cfg s =
     (case getitem (deref (objects s) cfg) ''script_name'' of
        Inl e \<Rightarrow> (Inl e, s)
      | Inr v \<Rightarrow> if truthy (objects s) v then (Inr (), s) else (Inl ValueError, s))"

text \<open>Lines 88 to 92.\<close>

definition reset_root_logger :: "state \<Rightarrow> state" where
  "reset_root_logger s = s\<lparr>root_level := DEBUG, root_handlers := []\<rparr>"

text \<open>\<^verbatim>\<open>os.makedirs(p, exist_ok=True)\<close>.\<close>

definition makedirs :: "lib \<Rightarrow> pyval \<Rightarrow> unit step" where
  "makedirs L p s =
     (case as_str p of
        Inl e \<Rightarrow> (Inl e, s)
      | Inr path \<Rightarrow>
          (case os_makedirs L path of
             Some e \<Rightarrow> (Inl e, s)
           | None \<Rightarrow> (Inr (), record_effect (MakeDirs path) s)))"

text \<open>\<^verbatim>\<open>current_time.strftime(f)\<close>, for the time and the platform of this call.\<close>

definition render_now :: "lib \<Rightarrow> string \<Rightarrow> error + string" where
  "render_now L f = strftime (strftime_ext L) (now L) f"

text \<open>\<^verbatim>\<open>current_time.strftime(cfg[k])\<close>.\<close>

definition format_now :: "lib \<Rightarrow> dict \<Rightarrow> string \<Rightarrow> error + string" where
  "format_now L c k =
     (case getitem c k of
        Inl e \<Rightarrow> Inl e
      | Inr v \<Rightarrow>
          (case as_str v of
             Inl e \<Rightarrow> Inl e
           | Inr f \<Rightarrow> render_now L f))"

text \<open>Lines 99 to 104, the arguments evaluated from left to right, then the join.\<close>

definition compute_log_dir :: "lib \<Rightarrow> dict \<Rightarrow> error + string" where
  "compute_log_dir L c =
     (case getitem c ''log_path'' of Inl e \<Rightarrow> Inl e | Inr lp \<Rightarrow>
      case getitem c ''script_name'' of Inl e \<Rightarrow> Inl e | Inr sn \<Rightarrow>
      case format_now L c ''date_format'' of Inl e \<Rightarrow> Inl e | Inr date \<Rightarrow>
      case format_now L c ''time_format'' of Inl e \<Rightarrow> Inl e | Inr time \<Rightarrow>
      case as_str lp of Inl e \<Rightarrow> Inl e | Inr lp_s \<Rightarrow>
      case as_str sn of Inl e \<Rightarrow> Inl e | Inr sn_s \<Rightarrow>
        Inr (os_path_join lp_s [sn_s, date, time]))"

text \<open>Line 108.\<close>

definition compute_log_file :: "lib \<Rightarrow> dict \<Rightarrow> string \<Rightarrow> error + string" where
  "compute_log_file L c dir_path =
     (case format_now L c ''file_format'' of
        Inl e \<Rightarrow> Inl e
      | Inr name \<Rightarrow> Inr (os_path_join dir_path [name @ ''.log'']))"

text \<open>Line 109: \<^verbatim>\<open>logging.FileHandler\<close> opens the file when it is constructed.\<close>

definition open_file_handler :: "lib \<Rightarrow> string \<Rightarrow> pyval \<Rightarrow> unit step" where
  "open_file_handler L file_path enc s =
     (case open_log_file L file_path enc of
        Some e \<Rightarrow> (Inl e, s)
      | None \<Rightarrow> (Inr (), record_effect (OpenFile file_path enc) s))"

text \<open>Line 113: \<^verbatim>\<open>logging.Formatter(fmt)\<close> validates its template.\<close>

definition make_formatter :: "lib \<Rightarrow> pyval \<Rightarrow> error + pyval" where
  "make_formatter L fmt = (case check_format L fmt of Some e \<Rightarrow> Inl e | None \<Rightarrow> Inr fmt)"

definition addHandler :: "handler \<Rightarrow> state \<Rightarrow> state" where
  "addHandler h s = s\<lparr>root_handlers := root_handlers s @ [h]\<rparr>"

text \<open>
  \<^verbatim>\<open>logging.getLogger(name).setLevel(n)\<close>: the empty name and the name \<^verbatim>\<open>root\<close> are the
  root logger itself (Python 3.9 and later; the empty name in every version).
\<close>

definition set_logger_level :: "string \<Rightarrow> int \<Rightarrow> state \<Rightarrow> state" where
  "set_logger_level name n s =
     (if name = [] \<or> name = ''root'' then s\<lparr>root_level := n\<rparr>
      else s\<lparr>logger_levels := AList.update name n (logger_levels s)\<rparr>)"

text \<open>Lines 127 and 128, the loop over the items.\<close>

fun set_levels :: "dict \<Rightarrow> unit step" where
  "set_levels [] s = (Inr (), s)"
| "set_levels ((name, level) # rest) s =
     (case checkLevel level of
        Inl e \<Rightarrow> (Inl e, s)
      | Inr n \<Rightarrow> set_levels rest (set_logger_level name n s))"

text \<open>\<^verbatim>\<open>cfg['disabled_loggers'].items()\<close>: only a dictionary has \<^verbatim>\<open>items\<close>.\<close>

definition dict_items :: "pyval \<Rightarrow> dict step" where
  "dict_items v s =
     (case v of PRef a \<Rightarrow> (Inr (deref (objects s) a), s) | _ \<Rightarrow> (Inl AttributeError, s))"

text \<open>Lines 95 to 105: the log root, then the dated directory below it.\<close>

definition make_log_dir :: "lib \<Rightarrow> dict \<Rightarrow> string step" where
  "make_log_dir L c =
     and_then (lift (getitem c ''log_path'')) (\<lambda>lp.
     and_then (makedirs L lp) (\<lambda>_.
     and_then (lift (compute_log_dir L c)) (\<lambda>dir_path.
     and_then (makedirs L (PStr dir_path)) (\<lambda>_.
       lift (Inr dir_path)))))"

text \<open>
  Lines 108 to 117: the file handler with its level and formatter, attached to the root
  logger. The step returns the file's path and the formatter, which the console handler
  shares.
\<close>

definition add_file_handler :: "lib \<Rightarrow> dict \<Rightarrow> string \<Rightarrow> (string \<times> pyval) step" where
  "add_file_handler L c dir_path =
     and_then (lift (compute_log_file L c dir_path)) (\<lambda>file_path.
     and_then (lift (getitem c ''encoding'')) (\<lambda>enc.
     and_then (open_file_handler L file_path enc) (\<lambda>_.
     and_then (lift (getitem c ''file_level'')) (\<lambda>fl.
     and_then (lift (checkLevel fl)) (\<lambda>file_level.
     and_then (lift (getitem c ''formatter'')) (\<lambda>fmt.
     and_then (lift (make_formatter L fmt)) (\<lambda>formatter.
     and_then (modify (addHandler (FileHandler file_path enc file_level formatter))) (\<lambda>_.
       lift (Inr (file_path, formatter))))))))))"

text \<open>
  Lines 120 to 124: the console handler is built and given its level in every case, and
  attached when \<^verbatim>\<open>console_enabled\<close> is truthy.
\<close>

definition add_console_handler :: "dict \<Rightarrow> pyval \<Rightarrow> unit step" where
  "add_console_handler c formatter =
     and_then (lift (getitem c ''console_level'')) (\<lambda>cl.
     and_then (lift (checkLevel cl)) (\<lambda>console_level.
     and_then (lift (getitem c ''console_enabled'')) (\<lambda>ce.
       (\<lambda>s. if truthy (objects s) ce
            then modify (addHandler (StreamHandler console_level formatter)) s
            else (Inr (), s)))))"

text \<open>Lines 127 and 128.\<close>

definition silence_loggers :: "dict \<Rightarrow> unit step" where
  "silence_loggers c =
     and_then (lift (getitem c ''disabled_loggers'')) (\<lambda>dl.
     and_then (dict_items dl) (\<lambda>items.
       set_levels items))"

text \<open>Lines 87 to 137, for the merged configuration \<open>c\<close> stored at \<open>cfg\<close>.\<close>

definition configure :: "lib \<Rightarrow> addr \<Rightarrow> dict \<Rightarrow> run_info step" where
  "configure L cfg c =
     and_then (modify reset_root_logger) (\<lambda>_.
     and_then (make_log_dir L c) (\<lambda>dir_path.
     and_then (add_file_handler L c dir_path) (\<lambda>(file_path, formatter).
     and_then (add_console_handler c formatter) (\<lambda>_.
     and_then (silence_loggers c) (\<lambda>_.
       lift (Inr \<lparr>log_file = file_path, log_dir = dir_path, config = cfg\<rparr>))))))"

definition setup_logger :: "lib \<Rightarrow> dict option \<Rightarrow> run_info step" where
  "setup_logger L conf =
     and_then (\<lambda>s. lift (clean_root conf s) s) (\<lambda>root.
     and_then (call_clean_logs L root) (\<lambda>_.
     and_then (merge_config conf) (\<lambda>cfg.
     and_then (check_script_name cfg) (\<lambda>_.
     and_then (\<lambda>s. configure L cfg (deref (objects s) cfg) s) (\<lambda>r.
       lift (Inr r))))))"

text \<open>
  The use the module documents: import it, then call \<^verbatim>\<open>setup_logger(config)\<close>.
\<close>

definition import_and_setup :: "lib \<Rightarrow> dict option \<Rightarrow> run_info step" where
  "import_and_setup L conf p =
     (case load_module p of
        Inl e \<Rightarrow> (Inl e, p)
      | Inr s \<Rightarrow> setup_logger L conf s)"

section \<open>Notions the properties are stated with\<close>

text \<open>A \<^verbatim>\<open>disabled_loggers\<close> mapping that names the root logger itself.\<close>

definition names_root :: "dict \<Rightarrow> bool" where
  "names_root items = ([] \<in> fst ` set items \<or> ''root'' \<in> fst ` set items)"

text \<open>
  The level the loop of lines 127 and 128 leaves the root logger at, when it found it at
  \<open>n\<close>: that of the last item that names the root logger, \<open>n\<close> when there is none.
\<close>

fun listed_root_level :: "dict \<Rightarrow> int \<Rightarrow> int" where
  "listed_root_level [] n = n"
| "listed_root_level ((name, level) # rest) n =
     listed_root_level rest
       (if name = [] \<or> name = ''root''
        then (case checkLevel level of Inl e \<Rightarrow> n | Inr m \<Rightarrow> m)
        else n)"

text \<open>The roots the retention cleaner was called with, in order.\<close>

fun cleaner_calls :: "effect list \<Rightarrow> pyval list" where
  "cleaner_calls [] = []"
| "cleaner_calls (CleanLogs root # es) = root # cleaner_calls es"
| "cleaner_calls (e # es) = cleaner_calls es"

text \<open>The items the caller supplied: none for \<^verbatim>\<open>None\<close>.\<close>

fun supplied :: "dict option \<Rightarrow> dict" where
  "supplied None = []"
| "supplied (Some c) = c"

text \<open>The options the module knows: the keys of \<open>DEFAULT_CONFIG\<close>.\<close>

definition recognized_options :: "string list" where
  "recognized_options =
     [''script_name'', ''console_enabled'', ''log_path'', ''date_format'', ''time_format'',
      ''file_format'', ''encoding'', ''formatter'', ''file_level'', ''console_level'',
      ''disabled_loggers'']"

text \<open>
  What a caller can do with the objects it is handed: \<^verbatim>\<open>obj[k1][k2]\<close> and
  \<^verbatim>\<open>obj[k1][k2] = v\<close>, for a dictionary \<^verbatim>\<open>obj\<close> stored at \<open>a\<close>.
\<close>

definition nested_getitem :: "heap \<Rightarrow> addr \<Rightarrow> string \<Rightarrow> string \<Rightarrow> error + pyval" where
  "nested_getitem h a k1 k2 =
     (case getitem (deref h a) k1 of
        Inl e \<Rightarrow> Inl e
      | Inr v \<Rightarrow> (case v of PRef b \<Rightarrow> getitem (deref h b) k2 | _ \<Rightarrow> Inl TypeError))"

definition nested_setitem :: "heap \<Rightarrow> addr \<Rightarrow> string \<Rightarrow> string \<Rightarrow> pyval \<Rightarrow> error + heap" where
  "nested_setitem h a k1 k2 v =
     (case getitem (deref h a) k1 of
        Inl e \<Rightarrow> Inl e
      | Inr w \<Rightarrow>
          (case w of
             PRef b \<Rightarrow>
               if b < length h then Inr (h[b := AList.update k2 v (h ! b)]) else Inl TypeError
           | _ \<Rightarrow> Inl TypeError))"

text \<open>A later state keeps every object of an earlier one when its store extends the other's.\<close>

definition objects_kept :: "state \<Rightarrow> state \<Rightarrow> bool" where
  "objects_kept s s' = (take (length (objects s)) (objects s') = objects s)"

text \<open>
  A step keeps a relation between the state before and the state after when it holds
  whatever the step's outcome.
\<close>

definition keeps :: "(state \<Rightarrow> state \<Rightarrow> bool) \<Rightarrow> 'a step \<Rightarrow> bool" where
  "keeps R m = (\<forall>s. R s (snd (m s)))"

definition same_cleaner_calls :: "state \<Rightarrow> state \<Rightarrow> bool" where
  "same_cleaner_calls s s' = (cleaner_calls (effects s') = cleaner_calls (effects s))"

section \<open>Example inputs\<close>

text \<open>
  A process started in \<^verbatim>\<open>/home/user\<close> that can enter the working directory, with
  \<^verbatim>\<open>LOG_PATH\<close> unset and no \<^verbatim>\<open>.env\<close> file; the state it is in once the module is loaded;
  collaborators that accept every call, at 2024-03-05 14:22:07, on a platform whose
  \<^verbatim>\<open>strftime\<close> rejects every format beyond the simple ones; and the same with a retention
  cleaner that raises.
\<close>

definition example_process :: state where
  "example_process =
     \<lparr>objects = [], DEFAULT_CONFIG = 0, environ = [], dotenv_file = [],
      cwd = ''/home/user'', dirs = [''/home/user'', WORKING_DIR],
      root_level = WARNING, root_handlers = [], logger_levels = [], effects = []\<rparr>"

definition example_state :: state where
  "example_state =
     \<lparr>objects = [default_disabled_loggers, default_config ''logs'' 0], DEFAULT_CONFIG = 1,
      environ = [], dotenv_file = [],
      cwd = WORKING_DIR, dirs = [''/home/user'', WORKING_DIR],
      root_level = WARNING, root_handlers = [], logger_levels = [], effects = []\<rparr>"

definition example_lib :: lib where
  "example_lib =
     \<lparr>clean_logs = (\<lambda>_. None), os_makedirs = (\<lambda>_. None), open_log_file = (\<lambda>_ _. None),
      check_format = (\<lambda>_. None),
      now = \<lparr>year = 2024, month = 3, day = 5, hour = 14, minute = 22, second = 7\<rparr>,
      strftime_ext = (\<lambda>_. Inl ValueError)\<rparr>"

definition failing_cleaner_lib :: lib where
  "failing_cleaner_lib = example_lib\<lparr>clean_logs := (\<lambda>_. Some RetentionCleanupError)\<rparr>"

text \<open>The loaded state with one more object, a mapping the caller built.\<close>

definition caller_state :: state where
  "caller_state = example_state\<lparr>objects := objects example_state @ [[(''noisy'', PInt 40)]]\<rparr>"

text \<open>
  The loaded state with a mapping the caller built whose only key is the empty logger name.
\<close>

definition root_override_state :: state where
  "root_override_state = example_state\<lparr>objects := objects example_state @ [[([], PInt 40)]]\<rparr>"

section \<open>Basic facts\<close>

lemma and_then_Inr:
  "and_then m f s = (Inr r, s') \<longleftrightarrow> (\<exists>x s1. m s = (Inr x, s1) \<and> f x s1 = (Inr r, s'))"
  by (auto simp: and_then_def split: prod.splits sum.splits)

lemma lift_Inr: "lift r s = (Inr x, s') \<longleftrightarrow> r = Inr x \<and> s' = s"
  by (auto simp: lift_def)

lemma modify_Inr: "modify f s = (Inr x, s') \<longleftrightarrow> s' = f s"
  by (auto simp: modify_def)

lemma getitem_Inr: "getitem d k = Inr v \<longleftrightarrow> map_of d k = Some v"
  by (simp add: getitem_def split: option.splits)

lemma as_str_Inr: "as_str v = Inr x \<longleftrightarrow> v = PStr x"
  by (cases v) auto

lemma makedirs_Inr:
  "makedirs L p s = (Inr x, s') \<longleftrightarrow>
     (\<exists>path. p = PStr path \<and> os_makedirs L path = None \<and> s' = record_effect (MakeDirs path) s)"
  by (cases p) (auto simp: makedirs_def split: option.splits)

lemma open_file_handler_Inr:
  "open_file_handler L f enc s = (Inr x, s') \<longleftrightarrow>
     open_log_file L f enc = None \<and> s' = record_effect (OpenFile f enc) s"
  by (auto simp: open_file_handler_def split: option.splits)

lemma make_formatter_Inr:
  "make_formatter L fmt = Inr f \<longleftrightarrow> check_format L fmt = None \<and> f = fmt"
  by (auto simp: make_formatter_def split: option.splits)

lemma dict_items_Inr:
  "dict_items v s = (Inr items, s') \<longleftrightarrow> (\<exists>a. v = PRef a \<and> items = deref (objects s) a \<and> s' = s)"
  by (cases v) (auto simp: dict_items_def)

lemma format_now_Inr:
  "format_now L c k = Inr x \<longleftrightarrow>
     (\<exists>f. map_of c k = Some (PStr f) \<and> render_now L f = Inr x)"
proof (cases "map_of c k")
  case None
  then show ?thesis by (simp add: format_now_def getitem_def)
next
  case (Some v)
  then show ?thesis by (cases v) (auto simp: format_now_def getitem_def)
qed

lemma compute_log_file_Inr:
  "compute_log_file L c dir = Inr x \<longleftrightarrow>
     (\<exists>ff name. map_of c ''file_format'' = Some (PStr ff) \<and> render_now L ff = Inr name \<and>
        x = os_path_join dir [name @ ''.log''])"
proof (cases "format_now L c ''file_format''")
  case (Inl e)
  then have "\<nexists>f name. map_of c ''file_format'' = Some (PStr f) \<and> render_now L f = Inr name"
    using format_now_Inr [of L c "''file_format''"] by auto
  with Inl show ?thesis by (simp add: compute_log_file_def)
next
  case (Inr name)
  then show ?thesis
    using format_now_Inr [of L c "''file_format''" name] by (auto simp: compute_log_file_def)
qed

lemma compute_log_dir_Inr:
  "compute_log_dir L c = Inr x \<longleftrightarrow>
     (\<exists>lp sn df tf date time.
        map_of c ''log_path'' = Some (PStr lp) \<and> map_of c ''script_name'' = Some (PStr sn) \<and>
        map_of c ''date_format'' = Some (PStr df) \<and> map_of c ''time_format'' = Some (PStr tf) \<and>
        render_now L df = Inr date \<and> render_now L tf = Inr time \<and>
        x = os_path_join lp [sn, date, time])"
  (is "?l \<longleftrightarrow> ?r")
proof
  assume ?l
  then show ?r
    by (auto simp: compute_log_dir_def getitem_Inr as_str_Inr format_now_Inr split: sum.splits)
next
  assume ?r
  then obtain lp sn df tf date time where
    h: "map_of c ''log_path'' = Some (PStr lp)" "map_of c ''script_name'' = Some (PStr sn)"
       "map_of c ''date_format'' = Some (PStr df)" "map_of c ''time_format'' = Some (PStr tf)"
       "render_now L df = Inr date" "render_now L tf = Inr time"
       "x = os_path_join lp [sn, date, time]"
    by blast
  then show ?l
    by (simp add: compute_log_dir_def getitem_def format_now_def)
qed

text \<open>The loop over \<open>disabled_loggers\<close> touches the levels only.\<close>

lemma set_logger_level_frame:
  "objects (set_logger_level name n s) = objects s"
  "root_handlers (set_logger_level name n s) = root_handlers s"
  "effects (set_logger_level name n s) = effects s"
  "DEFAULT_CONFIG (set_logger_level name n s) = DEFAULT_CONFIG s"
  "environ (set_logger_level name n s) = environ s"
  by (simp_all add: set_logger_level_def)

lemma set_levels_frame:
  "objects (snd (set_levels items s)) = objects s \<and>
   root_handlers (snd (set_levels items s)) = root_handlers s \<and>
   effects (snd (set_levels items s)) = effects s \<and>
   DEFAULT_CONFIG (snd (set_levels items s)) = DEFAULT_CONFIG s \<and>
   environ (snd (set_levels items s)) = environ s"
proof (induction items arbitrary: s)
  case Nil
  show ?case by simp
next
  case (Cons kv rest)
  obtain name level where kv: "kv = (name, level)" by (cases kv)
  show ?case
  proof (cases "checkLevel level")
    case (Inl e)
    with kv show ?thesis by simp
  next
    case (Inr n)
    with kv Cons.IH [of "set_logger_level name n s"] show ?thesis
      by (simp add: set_logger_level_frame)
  qed
qed

lemma set_levels_root_level:
  "\<not> names_root items \<Longrightarrow> root_level (snd (set_levels items s)) = root_level s"
proof (induction items arbitrary: s)
  case Nil
  show ?case by simp
next
  case (Cons kv rest)
  obtain name level where kv: "kv = (name, level)" by (cases kv)
  from Cons.prems kv have nm: "name \<noteq> []" "name \<noteq> ''root''" and rest: "\<not> names_root rest"
    by (auto simp: names_root_def)
  show ?case
  proof (cases "checkLevel level")
    case (Inl e)
    with kv show ?thesis by simp
  next
    case (Inr n)
    with kv Cons.IH [OF rest, of "set_logger_level name n s"] nm show ?thesis
      by (simp add: set_logger_level_def)
  qed
qed

lemma set_levels_listed_root_level:
  "set_levels items s = (Inr u, s') \<Longrightarrow> root_level s' = listed_root_level items (root_level s)"
proof (induction items arbitrary: s)
  case Nil
  then show ?case by simp
next
  case (Cons kv rest)
  obtain name level where kv: "kv = (name, level)" by (cases kv)
  show ?case
  proof (cases "checkLevel level")
    case (Inl e)
    with kv Cons.prems show ?thesis by simp
  next
    case (Inr n)
    with kv Cons.prems have "set_levels rest (set_logger_level name n s) = (Inr u, s')"
      by simp
    from Cons.IH [OF this] kv Inr show ?thesis
      by (simp add: set_logger_level_def)
  qed
qed

lemma listed_root_level_unnamed:
  "\<not> names_root items \<Longrightarrow> listed_root_level items n = n"
proof (induction items arbitrary: n)
  case Nil
  show ?case by simp
next
  case (Cons kv rest)
  obtain name level where kv: "kv = (name, level)" by (cases kv)
  from Cons.prems kv have "name \<noteq> []" "name \<noteq> ''root''" "\<not> names_root rest"
    by (auto simp: names_root_def)
  with Cons.IH [of n] kv show ?case by simp
qed

lemma set_levels_Inr:
  assumes "set_levels items s = (Inr u, s')"
  shows "objects s' = objects s \<and> root_handlers s' = root_handlers s \<and>
         effects s' = effects s \<and> DEFAULT_CONFIG s' = DEFAULT_CONFIG s \<and>
         environ s' = environ s \<and>
         (if names_root items then True else root_level s' = root_level s)"
proof -
  from assms have "s' = snd (set_levels items s)" by simp
  then show ?thesis
    using set_levels_frame [of items s] set_levels_root_level [of items s] by simp
qed

lemma make_log_dir_Inr:
  "make_log_dir L c s = (Inr dir_path, s') \<longleftrightarrow>
     (\<exists>lp. map_of c ''log_path'' = Some (PStr lp) \<and> os_makedirs L lp = None \<and>
        compute_log_dir L c = Inr dir_path \<and> os_makedirs L dir_path = None \<and>
        s' = record_effect (MakeDirs dir_path) (record_effect (MakeDirs lp) s))"
  unfolding make_log_dir_def
  by (simp add: and_then_Inr lift_Inr makedirs_Inr getitem_Inr) blast

lemma add_file_handler_Inr:
  "add_file_handler L c dir_path s = (Inr (file_path, fmt), s') \<longleftrightarrow>
     (\<exists>enc fl file_level.
        compute_log_file L c dir_path = Inr file_path \<and>
        map_of c ''encoding'' = Some enc \<and> open_log_file L file_path enc = None \<and>
        map_of c ''file_level'' = Some fl \<and> checkLevel fl = Inr file_level \<and>
        map_of c ''formatter'' = Some fmt \<and> check_format L fmt = None \<and>
        s' = addHandler (FileHandler file_path enc file_level fmt)
               (record_effect (OpenFile file_path enc) s))"
  unfolding add_file_handler_def
  by (simp add: and_then_Inr lift_Inr modify_Inr getitem_Inr open_file_handler_Inr
        make_formatter_Inr) blast

lemma add_console_handler_Inr:
  "add_console_handler c fmt s = (Inr u, s') \<longleftrightarrow>
     (\<exists>cl console_level ce.
        map_of c ''console_level'' = Some cl \<and> checkLevel cl = Inr console_level \<and>
        map_of c ''console_enabled'' = Some ce \<and>
        s' = (if truthy (objects s) ce then addHandler (StreamHandler console_level fmt) s
              else s))"
  unfolding add_console_handler_def
  by (simp add: and_then_Inr lift_Inr modify_Inr getitem_Inr) (auto simp: modify_def)

lemma silence_loggers_Inr:
  "silence_loggers c s = (Inr u, s') \<longleftrightarrow>
     (\<exists>a. map_of c ''disabled_loggers'' = Some (PRef a) \<and>
        set_levels (deref (objects s) a) s = (Inr u, s'))"
  unfolding silence_loggers_def
  by (simp add: and_then_Inr lift_Inr getitem_Inr dict_items_Inr) blast

lemma configure_Inr:
  assumes "configure L cfg c s = (Inr r, s')"
  obtains lp enc fl fmt cl ce a file_level console_level where
      "map_of c ''log_path'' = Some (PStr lp)" "os_makedirs L lp = None"
      "compute_log_dir L c = Inr (log_dir r)" "os_makedirs L (log_dir r) = None"
      "compute_log_file L c (log_dir r) = Inr (log_file r)"
      "map_of c ''encoding'' = Some enc" "open_log_file L (log_file r) enc = None"
      "map_of c ''file_level'' = Some fl" "checkLevel fl = Inr file_level"
      "map_of c ''formatter'' = Some fmt" "check_format L fmt = None"
      "map_of c ''console_level'' = Some cl" "checkLevel cl = Inr console_level"
      "map_of c ''console_enabled'' = Some ce"
      "map_of c ''disabled_loggers'' = Some (PRef a)"
      "config r = cfg"
      "objects s' = objects s"
      "root_handlers s' = FileHandler (log_file r) enc file_level fmt #
             (if truthy (objects s) ce then [StreamHandler console_level fmt] else [])"
      "effects s' = effects s @ [MakeDirs lp, MakeDirs (log_dir r), OpenFile (log_file r) enc]"
      "DEFAULT_CONFIG s' = DEFAULT_CONFIG s" "environ s' = environ s"
      "names_root (deref (objects s) a) \<or> root_level s' = DEBUG"
      "root_level s' = listed_root_level (deref (objects s) a) DEBUG"
proof -
  from assms obtain dir_path file_path fmt s2 s3 s4 where
    st_dir: "make_log_dir L c (reset_root_logger s) = (Inr dir_path, s2)" and
    st_file: "add_file_handler L c dir_path s2 = (Inr (file_path, fmt), s3)" and
    st_console: "add_console_handler c fmt s3 = (Inr (), s4)" and
    st_loggers: "silence_loggers c s4 = (Inr (), s')" and
    r: "r = \<lparr>log_file = file_path, log_dir = dir_path, config = cfg\<rparr>"
    unfolding configure_def
    by (auto simp: and_then_Inr lift_Inr modify_Inr)
  from st_dir obtain lp where
    lp: "map_of c ''log_path'' = Some (PStr lp)" "os_makedirs L lp = None"
        "compute_log_dir L c = Inr dir_path" "os_makedirs L dir_path = None" and
    s2: "s2 = record_effect (MakeDirs dir_path) (record_effect (MakeDirs lp) (reset_root_logger s))"
    by (auto simp: make_log_dir_Inr)
  from st_file obtain enc fl file_level where
    fh: "compute_log_file L c dir_path = Inr file_path"
        "map_of c ''encoding'' = Some enc" "open_log_file L file_path enc = None"
        "map_of c ''file_level'' = Some fl" "checkLevel fl = Inr file_level"
        "map_of c ''formatter'' = Some fmt" "check_format L fmt = None" and
    s3: "s3 = addHandler (FileHandler file_path enc file_level fmt)
               (record_effect (OpenFile file_path enc) s2)"
    by (auto simp: add_file_handler_Inr)
  from st_console obtain cl console_level ce where
    ch: "map_of c ''console_level'' = Some cl" "checkLevel cl = Inr console_level"
        "map_of c ''console_enabled'' = Some ce" and
    s4: "s4 = (if truthy (objects s3) ce then addHandler (StreamHandler console_level fmt) s3
              else s3)"
    by (auto simp: add_console_handler_Inr)
  have s4_fields: "objects s4 = objects s"
       "root_handlers s4 = FileHandler file_path enc file_level fmt #
             (if truthy (objects s) ce then [StreamHandler console_level fmt] else [])"
       "effects s4 = effects s @ [MakeDirs lp, MakeDirs dir_path, OpenFile file_path enc]"
       "root_level s4 = DEBUG" "DEFAULT_CONFIG s4 = DEFAULT_CONFIG s" "environ s4 = environ s"
    by (simp_all add: s4 s3 s2 reset_root_logger_def record_effect_def addHandler_def)
  from st_loggers obtain a where
    dl: "map_of c ''disabled_loggers'' = Some (PRef a)" and
    loop: "set_levels (deref (objects s4) a) s4 = (Inr (), s')"
    by (auto simp: silence_loggers_Inr)
  from set_levels_Inr [OF loop] s4_fields
  have s'_fields: "objects s' = objects s"
      "root_handlers s' = FileHandler file_path enc file_level fmt #
             (if truthy (objects s) ce then [StreamHandler console_level fmt] else [])"
      "effects s' = effects s @ [MakeDirs lp, MakeDirs dir_path, OpenFile file_path enc]"
      "DEFAULT_CONFIG s' = DEFAULT_CONFIG s" "environ s' = environ s"
      "names_root (deref (objects s) a) \<or> root_level s' = DEBUG"
    by (simp_all split: if_splits)
  from set_levels_listed_root_level [OF loop] s4_fields
  have listed: "root_level s' = listed_root_level (deref (objects s) a) DEBUG"
    by simp
  show thesis
  proof (rule that [of lp enc fl file_level fmt cl console_level ce a])
    show "root_level s' = listed_root_level (deref (objects s) a) DEBUG"
      by (rule listed)
  qed (simp_all add: r lp fh ch dl s'_fields)
qed

lemma deref_alloc [simp]: "deref (h @ [d]) (length h) = d"
  by (simp add: deref_def)

lemma deref_append_old: "a < length h \<Longrightarrow> deref (h @ ys) a = deref h a"
  by (simp add: deref_def nth_append)

lemmas model_defs =
  setup_logger_def configure_def make_log_dir_def add_file_handler_def add_console_handler_def
  silence_loggers_def and_then_def lift_def modify_def clean_root_def call_clean_logs_def
  merge_config_def merged_config_def check_script_name_def reset_root_logger_def makedirs_def format_now_def
  compute_log_dir_def compute_log_file_def open_file_handler_def make_formatter_def
  addHandler_def set_logger_level_def dict_items_def record_effect_def
  deref_def alloc_def getitem_def dict_update_def dict_literal_def
  default_config_def default_disabled_loggers_def
  os_path_join_def join2_def render_now_def strftime_def known_directive_def ordinary_def
  directive_def pad2_def pad4_def digit_def
  DEBUG_def INFO_def WARNING_def AList.update.simps

lemma example_load: "load_module example_process = Inr example_state"
  by (simp add: load_module_def switch_working_dir_def chdir_def example_process_def
        example_state_def build_default_config_def load_dotenv_def getenv_def alloc_def
        WORKING_DIR_def)

lemma example_run:
  "fst (setup_logger example_lib (Some [(''script_name'', PStr ''svc''), (''console_enabled'', PBool False)]) example_state)
    = Inr \<lparr>log_file = ''logs/svc/20240305/14/2207.log'', log_dir = ''logs/svc/20240305/14'', config = 2\<rparr>"
  by (simp add: model_defs example_lib_def example_state_def)

section \<open>Frame rules\<close>

lemma keeps_and_then:
  assumes "\<And>a b c. R a b \<Longrightarrow> R b c \<Longrightarrow> R a c"
    and "keeps R m" and "\<And>x. keeps R (f x)"
  shows "keeps R (and_then m f)"
  unfolding keeps_def
proof
  fix s
  show "R s (snd (and_then m f s))"
  proof (cases "m s")
    case (Pair res s1)
    from assms(2) Pair have step: "R s s1" by (auto simp: keeps_def dest: spec [of _ s])
    show ?thesis
    proof (cases res)
      case (Inl e)
      with Pair step show ?thesis by (simp add: and_then_def)
    next
      case (Inr x)
      from assms(3) [of x] have "R s1 (snd (f x s1))" by (simp add: keeps_def)
      with step have "R s (snd (f x s1))" by (rule assms(1))
      with Pair Inr show ?thesis by (simp add: and_then_def)
    qed
  qed
qed

lemma keeps_lift: "(\<And>s. R s s) \<Longrightarrow> keeps R (lift r)"
  by (simp add: keeps_def lift_def)

lemma keeps_modify: "(\<And>s. R s (f s)) \<Longrightarrow> keeps R (modify f)"
  by (simp add: keeps_def modify_def)

lemma keeps_case_prod: "(\<And>a b. keeps R (f a b)) \<Longrightarrow> keeps R (case_prod f x)"
  by (cases x) simp

lemma keeps_makedirs:
  "(\<And>s. R s s) \<Longrightarrow> (\<And>s path. R s (record_effect (MakeDirs path) s)) \<Longrightarrow> keeps R (makedirs L p)"
  by (auto simp: keeps_def makedirs_def split: sum.splits option.splits)

lemma keeps_open_file_handler:
  "(\<And>s. R s s) \<Longrightarrow> (\<And>s f e. R s (record_effect (OpenFile f e) s)) \<Longrightarrow>
   keeps R (open_file_handler L file_path enc)"
  by (auto simp: keeps_def open_file_handler_def split: option.splits)

lemma keeps_dict_items: "(\<And>s. R s s) \<Longrightarrow> keeps R (dict_items v)"
  by (cases v) (simp_all add: keeps_def dict_items_def)

lemma keeps_set_levels:
  assumes refl: "\<And>s. R s s" and trans: "\<And>a b c. R a b \<Longrightarrow> R b c \<Longrightarrow> R a c"
    and lvl: "\<And>s name n. R s (set_logger_level name n s)"
  shows "keeps R (set_levels items)"
  unfolding keeps_def
proof
  fix s
  show "R s (snd (set_levels items s))"
  proof (induction items arbitrary: s)
    case Nil
    show ?case by (simp add: refl)
  next
    case (Cons kv rest)
    obtain name level where kv: "kv = (name, level)" by (cases kv)
    show ?case
    proof (cases "checkLevel level")
      case (Inl e)
      with kv show ?thesis by (simp add: refl)
    next
      case (Inr n)
      have "R s (snd (set_levels rest (set_logger_level name n s)))"
        using lvl [of s name n] Cons.IH [of "set_logger_level name n s"] by (rule trans)
      with kv Inr show ?thesis by simp
    qed
  qed
qed

lemma keeps_configure:
  assumes refl: "\<And>s. R s s" and trans: "\<And>a b c. R a b \<Longrightarrow> R b c \<Longrightarrow> R a c"
    and reset: "\<And>s. R s (reset_root_logger s)"
    and mk: "\<And>s path. R s (record_effect (MakeDirs path) s)"
    and opn: "\<And>s f e. R s (record_effect (OpenFile f e) s)"
    and add: "\<And>s h. R s (addHandler h s)"
    and lvl: "\<And>s name n. R s (set_logger_level name n s)"
  shows "keeps R (configure L cfg c)"
proof -
  have dir: "keeps R (make_log_dir L c)"
    unfolding make_log_dir_def
    by (intro keeps_and_then keeps_lift keeps_makedirs refl mk) (erule trans, assumption)+
  have fileh: "keeps R (add_file_handler L c d)" for d
    unfolding add_file_handler_def
    by (intro keeps_and_then keeps_lift keeps_modify keeps_open_file_handler refl opn add)
       (erule trans, assumption)+
  have console: "keeps R (add_console_handler c f)" for f
    unfolding add_console_handler_def
    by (intro keeps_and_then keeps_lift refl) 
       ((erule trans, assumption) | simp add: keeps_def modify_def refl add)+
  have loggers: "keeps R (silence_loggers c)"
    unfolding silence_loggers_def
    by (intro keeps_and_then keeps_lift keeps_dict_items keeps_set_levels refl lvl)
       (erule trans, assumption)+
  show ?thesis
    unfolding configure_def
    by (intro keeps_and_then keeps_case_prod keeps_lift keeps_modify dir fileh console loggers
          refl reset)
       (erule trans, assumption)+
qed

lemma cleaner_calls_append [simp]:
  "cleaner_calls (xs @ ys) = cleaner_calls xs @ cleaner_calls ys"
  by (induction xs rule: cleaner_calls.induct) simp_all

lemma configure_same_cleaner_calls: "keeps same_cleaner_calls (configure L cfg c)"
  by (rule keeps_configure)
     (simp_all add: same_cleaner_calls_def reset_root_logger_def record_effect_def addHandler_def
        set_logger_level_def)

lemma configure_objects: "keeps (\<lambda>s s'. objects s' = objects s) (configure L cfg c)"
  by (rule keeps_configure)
     (simp_all add: reset_root_logger_def record_effect_def addHandler_def set_logger_level_def)


lemma map_of_dict_update:
  "map_of (dict_update d c) k =
     (case map_of (rev c) k of Some v \<Rightarrow> Some v | None \<Rightarrow> map_of d k)"
proof (induction c arbitrary: d)
  case Nil
  show ?case by (simp add: dict_update_def)
next
  case (Cons kv c)
  obtain k' v' where kv: "kv = (k', v')" by (cases kv)
  have "dict_update d (kv # c) = dict_update (AList.update k' v' d) c"
    by (simp add: dict_update_def kv)
  then show ?case
    using Cons.IH [of "AList.update k' v' d"]
    by (auto simp: kv update_conv' map_add_def split: option.splits)
qed

lemma keys_dict_update:
  "fst ` set (dict_update d c) = fst ` set d \<union> fst ` set c"
proof (induction c arbitrary: d)
  case Nil
  show ?case by (simp add: dict_update_def)
next
  case (Cons kv c)
  obtain k' v' where kv: "kv = (k', v')" by (cases kv)
  have "dict_update d (kv # c) = dict_update (AList.update k' v' d) c"
    by (simp add: dict_update_def kv)
  then show ?case
    using Cons.IH [of "AList.update k' v' d"] by (auto simp: kv dom_update)
qed

lemma map_of_merged:
  assumes "distinct (map fst (supplied conf))"
  shows "map_of (merged d conf) k =
     (case map_of (supplied conf) k of Some v \<Rightarrow> Some v | None \<Rightarrow> map_of d k)"
proof (cases conf)
  case None
  then show ?thesis by simp
next
  case (Some c)
  with assms have "distinct (map fst c)" and "distinct (map fst (rev c))"
    by (simp_all add: rev_map [symmetric])
  then have "map_of (rev c) = map_of c"
    by (simp add: map_of_inject_set)
  with Some show ?thesis by (cases "c = []") (simp_all add: map_of_dict_update)
qed

lemma keys_merged:
  "fst ` set (merged d conf) = fst ` set d \<union> fst ` set (supplied conf)"
  by (cases conf) (auto simp: keys_dict_update)

lemma map_of_merged_not_supplied:
  assumes "\<not> supplies conf k"
  shows "map_of (merged d conf) k = map_of d k"
proof (cases conf)
  case None
  then show ?thesis by simp
next
  case (Some c)
  show ?thesis
  proof (cases "c = []")
    case True
    with Some show ?thesis by simp
  next
    case False
    with Some assms have "k \<notin> fst ` set (rev c)" by simp
    then have "map_of (rev c) k = None" by (simp add: map_of_eq_None_iff)
    with Some False show ?thesis by (simp add: map_of_dict_update)
  qed
qed

text \<open>The function as one case distinction, in the order of the source.\<close>

lemma setup_logger_unfold:
  "setup_logger L conf s =
     (case clean_root conf s of
        Inl e \<Rightarrow> (Inl e, s)
      | Inr root \<Rightarrow>
          (case clean_logs L root of
             Some e \<Rightarrow> (Inl e, record_effect (CleanLogs root) s)
           | None \<Rightarrow>
               (case map_of (merged_config conf s) ''script_name'' of
                  None \<Rightarrow>
                    (Inl (KeyError ''script_name''),
                     (record_effect (CleanLogs root) s)
                       \<lparr>objects := objects s @ [merged_config conf s]\<rparr>)
                | Some v \<Rightarrow>
                    if truthy (objects s @ [merged_config conf s]) v
                    then configure L (length (objects s)) (merged_config conf s)
                           ((record_effect (CleanLogs root) s)
                              \<lparr>objects := objects s @ [merged_config conf s]\<rparr>)
                    else (Inl ValueError,
                          (record_effect (CleanLogs root) s)
                            \<lparr>objects := objects s @ [merged_config conf s]\<rparr>))))"
proof -
  have rest: "and_then (\<lambda>s. configure L cfg (deref (objects s) cfg) s) (\<lambda>r. lift (Inr r)) t
      = configure L cfg (deref (objects t) cfg) t" for cfg t
    by (cases "configure L cfg (deref (objects t) cfg) t")
       (auto simp: and_then_def lift_def split: sum.splits)
  show ?thesis
    unfolding setup_logger_def rest
    by (simp add: and_then_def lift_def call_clean_logs_def merge_config_def alloc_def
          check_script_name_def getitem_def merged_config_def record_effect_def
          split: sum.splits option.splits)
qed

text \<open>What a call that returns has done.\<close>

lemma setup_logger_Inr:
  assumes "setup_logger L conf s = (Inr r, s')"
  obtains root v where
    "clean_root conf s = Inr root" "clean_logs L root = None"
    "map_of (merged_config conf s) ''script_name'' = Some v"
    "truthy (objects s @ [merged_config conf s]) v"
    "configure L (length (objects s)) (merged_config conf s)
       ((record_effect (CleanLogs root) s)\<lparr>objects := objects s @ [merged_config conf s]\<rparr>)
     = (Inr r, s')"
proof (cases "clean_root conf s")
  case (Inl e)
  with assms show ?thesis by (simp add: setup_logger_unfold)
next
  case root: (Inr root)
  show ?thesis
  proof (cases "clean_logs L root")
    case (Some e)
    with assms root show ?thesis by (simp add: setup_logger_unfold)
  next
    case clean: None
    show ?thesis
    proof (cases "map_of (merged_config conf s) ''script_name''")
      case None
      with assms root clean show ?thesis by (simp add: setup_logger_unfold)
    next
      case (Some v)
      show ?thesis
      proof (cases "truthy (objects s @ [merged_config conf s]) v")
        case False
        with assms root clean Some show ?thesis by (simp add: setup_logger_unfold)
      next
        case True
        with assms root clean Some have
          "configure L (length (objects s)) (merged_config conf s)
             ((record_effect (CleanLogs root) s)\<lparr>objects := objects s @ [merged_config conf s]\<rparr>)
           = (Inr r, s')"
          by (simp add: setup_logger_unfold)
        with root clean Some True show ?thesis by (rule that)
      qed
    qed
  qed
qed

lemma setup_logger_success:
  assumes "setup_logger L conf s = (Inr r, s')"
  obtains root sn lp df tf ff enc fl fmt cl ce a file_level console_level date time name where
    "\<not> supplies conf ''log_path''"
    "map_of (deref (objects s) (DEFAULT_CONFIG s)) ''log_path'' = Some root"
    "clean_logs L root = None"
    "config r = length (objects s)"
    "objects s' = objects s @ [merged_config conf s]"
    "deref (objects s') (config r) = merged_config conf s"
    "map_of (merged_config conf s) ''script_name'' = Some (PStr sn)"
    "sn \<noteq> []"
    "map_of (merged_config conf s) ''log_path'' = Some (PStr lp)"
    "map_of (merged_config conf s) ''date_format'' = Some (PStr df)"
    "map_of (merged_config conf s) ''time_format'' = Some (PStr tf)"
    "map_of (merged_config conf s) ''file_format'' = Some (PStr ff)"
    "map_of (merged_config conf s) ''encoding'' = Some enc"
    "map_of (merged_config conf s) ''file_level'' = Some fl"
    "checkLevel fl = Inr file_level"
    "map_of (merged_config conf s) ''formatter'' = Some fmt"
    "map_of (merged_config conf s) ''console_level'' = Some cl"
    "checkLevel cl = Inr console_level"
    "map_of (merged_config conf s) ''console_enabled'' = Some ce"
    "map_of (merged_config conf s) ''disabled_loggers'' = Some (PRef a)"
    "log_dir r = os_path_join lp [sn, date, time]"
    "log_file r = os_path_join (log_dir r) [name @ ''.log'']"
    "root_handlers s' = FileHandler (log_file r) enc file_level fmt #
       (if truthy (objects s') ce then [StreamHandler console_level fmt] else [])"
    "effects s' = effects s @
       [CleanLogs root, MakeDirs lp, MakeDirs (log_dir r), OpenFile (log_file r) enc]"
    "DEFAULT_CONFIG s' = DEFAULT_CONFIG s" "environ s' = environ s"
    "names_root (deref (objects s') a) \<or> root_level s' = DEBUG"
    "render_now L df = Inr date" "render_now L tf = Inr time" "render_now L ff = Inr name"
    "root_level s' = listed_root_level (deref (objects s') a) DEBUG"
  using assms
proof (cases rule: setup_logger_Inr)
  case pre: (1 root v)
  let ?c = "merged_config conf s"
  from pre(1) have no_lp: "\<not> supplies conf ''log_path''"
    and root: "map_of (deref (objects s) (DEFAULT_CONFIG s)) ''log_path'' = Some root"
    by (auto simp: clean_root_def getitem_Inr split: if_splits)
  from pre(5) show ?thesis
  proof (cases rule: configure_Inr)
    case c: (1 lp enc fl fmt cl ce a file_level console_level)
    from c(17) have objs: "objects s' = objects s @ [?c]"
      by (simp add: record_effect_def)
    from c(3) obtain lp' sn df tf date time where
      d: "map_of ?c ''log_path'' = Some (PStr lp')" "map_of ?c ''script_name'' = Some (PStr sn)"
         "map_of ?c ''date_format'' = Some (PStr df)" "map_of ?c ''time_format'' = Some (PStr tf)"
         "render_now L df = Inr date" "render_now L tf = Inr time"
         "log_dir r = os_path_join lp' [sn, date, time]"
      unfolding compute_log_dir_Inr by blast
    from d(1) c(1) have lp': "lp' = lp" by simp
    from c(5) obtain ff name where
      f: "map_of ?c ''file_format'' = Some (PStr ff)" "render_now L ff = Inr name"
         "log_file r = os_path_join (log_dir r) [name @ ''.log'']"
      unfolding compute_log_file_Inr by blast
    from pre(3,4) d(2) have sn: "sn \<noteq> []" by auto
    have cfg: "deref (objects s') (config r) = ?c"
      by (simp add: objs c(16))
    have handlers: "root_handlers s' = FileHandler (log_file r) enc file_level fmt #
       (if truthy (objects s') ce then [StreamHandler console_level fmt] else [])"
      using c(18) by (simp add: objs record_effect_def)
    have eff: "effects s' = effects s @
       [CleanLogs root, MakeDirs lp, MakeDirs (log_dir r), OpenFile (log_file r) enc]"
      using c(19) by (simp add: record_effect_def)
    have dc: "DEFAULT_CONFIG s' = DEFAULT_CONFIG s" "environ s' = environ s"
      using c(20,21) by (simp_all add: record_effect_def)
    have lvl: "names_root (deref (objects s') a) \<or> root_level s' = DEBUG"
      using c(22) by (simp add: objs record_effect_def)
    have listed: "root_level s' = listed_root_level (deref (objects s') a) DEBUG"
      using c(23) by (simp add: objs record_effect_def)
    show ?thesis
    proof (rule that [of root sn lp df tf ff enc fl file_level fmt cl console_level ce a
                         date time name])
      show "\<not> supplies conf ''log_path''" by (rule no_lp)
      show "map_of (deref (objects s) (DEFAULT_CONFIG s)) ''log_path'' = Some root" by (rule root)
      show "clean_logs L root = None" by (rule pre(2))
      show "config r = length (objects s)" by (rule c(16))
      show "objects s' = objects s @ [?c]" by (rule objs)
      show "deref (objects s') (config r) = ?c" by (rule cfg)
      show "map_of ?c ''script_name'' = Some (PStr sn)" by (rule d(2))
      show "sn \<noteq> []" by (rule sn)
      show "map_of ?c ''log_path'' = Some (PStr lp)" by (rule c(1))
      show "map_of ?c ''date_format'' = Some (PStr df)" by (rule d(3))
      show "map_of ?c ''time_format'' = Some (PStr tf)" by (rule d(4))
      show "map_of ?c ''file_format'' = Some (PStr ff)" by (rule f(1))
      show "map_of ?c ''encoding'' = Some enc" by (rule c(6))
      show "map_of ?c ''file_level'' = Some fl" by (rule c(8))
      show "checkLevel fl = Inr file_level" by (rule c(9))
      show "map_of ?c ''formatter'' = Some fmt" by (rule c(10))
      show "map_of ?c ''console_level'' = Some cl" by (rule c(12))
      show "checkLevel cl = Inr console_level" by (rule c(13))
      show "map_of ?c ''console_enabled'' = Some ce" by (rule c(14))
      show "map_of ?c ''disabled_loggers'' = Some (PRef a)" by (rule c(15))
      show "log_dir r = os_path_join lp [sn, date, time]"
        using d(7) lp' by simp
      show "log_file r = os_path_join (log_dir r) [name @ ''.log'']" by (rule f(3))
      show "root_handlers s' = FileHandler (log_file r) enc file_level fmt #
         (if truthy (objects s') ce then [StreamHandler console_level fmt] else [])"
        by (rule handlers)
      show "effects s' = effects s @
         [CleanLogs root, MakeDirs lp, MakeDirs (log_dir r), OpenFile (log_file r) enc]"
        by (rule eff)
      show "DEFAULT_CONFIG s' = DEFAULT_CONFIG s" by (rule dc(1))
      show "environ s' = environ s" by (rule dc(2))
      show "names_root (deref (objects s') a) \<or> root_level s' = DEBUG" by (rule lvl)
      show "render_now L df = Inr date" by (rule d(5))
      show "render_now L tf = Inr time" by (rule d(6))
      show "render_now L ff = Inr name" by (rule f(2))
      show "root_level s' = listed_root_level (deref (objects s') a) DEBUG" by (rule listed)
    qed
  qed
qed

section \<open>The retention cleaner's root (lines 75 and 76)\<close>

text \<open>
  When the caller's configuration does not supply \<^verbatim>\<open>log_path\<close>, the cleaner is called
  exactly once, with the default root, however the call ends.
\<close>

lemma cleaner_called_once_with_default_root:
  assumes "\<not> supplies conf ''log_path''"
    and "map_of (deref (objects s) (DEFAULT_CONFIG s)) ''log_path'' = Some root"
  shows "cleaner_calls (effects (snd (setup_logger L conf s)))
           = cleaner_calls (effects s) @ [root]"
proof -
  from assms have root: "clean_root conf s = Inr root"
    by (simp add: clean_root_def getitem_def)
  have conf_calls: "cleaner_calls (effects (snd (configure L cfg c t)))
      = cleaner_calls (effects t)" for cfg c t
    using configure_same_cleaner_calls [of L cfg c]
    by (simp add: keeps_def same_cleaner_calls_def)
  show ?thesis
    by (simp add: setup_logger_unfold root record_effect_def conf_calls
          split: option.splits)
qed

text \<open>
  Claim C1: when the caller's configuration supplies \<^verbatim>\<open>log_path\<close>, the retention cleaner is
  to be called with that value. The code reads \<^verbatim>\<open>cfg['log_path']\<close> on line 76, before
  \<^verbatim>\<open>cfg\<close> is assigned on line 79: with \<^verbatim>\<open>{'script_name': 'svc', 'log_path': 'mylogs'}\<close>
  the call raises UnboundLocalError and leaves the state as it found it, so the cleaner is
  never called with \<^verbatim>\<open>mylogs\<close>.
\<close>

theorem log_path_override_reads_unbound_cfg:
  "setup_logger L (Some [(''script_name'', PStr ''svc''), (''log_path'', PStr ''mylogs'')]) s
     = (Inl UnboundLocalError, s)"
  by (simp add: setup_logger_def and_then_def lift_def clean_root_def)

text \<open>
  Claim C7: the cleaner is to run exactly once on every call, also on calls that fail the
  \<^verbatim>\<open>script_name\<close> check. With \<^verbatim>\<open>{'log_path': 'mylogs'}\<close>, a configuration without
  \<^verbatim>\<open>script_name\<close>, the call fails on line 76 with UnboundLocalError and the cleaner has not
  been called at all.
\<close>

theorem cleaner_not_called_when_log_path_supplied:
  "fst (setup_logger L (Some [(''log_path'', PStr ''mylogs'')]) s) = Inl UnboundLocalError \<and>
   cleaner_calls (effects (snd (setup_logger L (Some [(''log_path'', PStr ''mylogs'')]) s)))
     = cleaner_calls (effects s)"
  by (simp add: setup_logger_def and_then_def lift_def clean_root_def)

section \<open>A cleaner that raises\<close>

text \<open>
  Claim C6, as amended: \<^verbatim>\<open>clean_logs\<close> is called outside any \<^verbatim>\<open>try\<close>, so when it raises,
  the error reaches the caller of \<open>setup_logger\<close> and nothing after line 76 runs: the state
  differs from the one before the call by the recorded call of the cleaner only.
\<close>

theorem cleaner_error_propagates:
  assumes "clean_root conf s = Inr root" and "clean_logs L root = Some e"
  shows "setup_logger L conf s = (Inl e, s\<lparr>effects := effects s @ [CleanLogs root]\<rparr>)"
  using assms
  by (simp add: setup_logger_def and_then_def lift_def call_clean_logs_def record_effect_def)

theorem cleaner_error_propagates_witness:
  "clean_root (Some [(''script_name'', PStr ''svc'')]) example_state = Inr (PStr ''logs'') \<and>
   clean_logs failing_cleaner_lib (PStr ''logs'') = Some RetentionCleanupError \<and>
   setup_logger failing_cleaner_lib (Some [(''script_name'', PStr ''svc'')]) example_state
     = (Inl RetentionCleanupError,
        example_state\<lparr>effects := effects example_state @ [CleanLogs (PStr ''logs'')]\<rparr>)"
proof -
  have root: "clean_root (Some [(''script_name'', PStr ''svc'')]) example_state = Inr (PStr ''logs'')"
    by (simp add: clean_root_def example_state_def model_defs)
  have raises: "clean_logs failing_cleaner_lib (PStr ''logs'') = Some RetentionCleanupError"
    by (simp add: failing_cleaner_lib_def)
  from cleaner_error_propagates [OF root raises] root raises show ?thesis by simp
qed

text \<open>
  The claim as the specification states it (the error is swallowed and initialization
  completes) fails: with a valid configuration and a cleaner that raises, the call ends in
  the cleaner's error and no handler has been attached.
\<close>

theorem cleaner_error_not_swallowed_counterexample:
  "fst (setup_logger failing_cleaner_lib (Some [(''script_name'', PStr ''svc'')]) example_state)
     = Inl RetentionCleanupError \<and>
   root_handlers (snd (setup_logger failing_cleaner_lib (Some [(''script_name'', PStr ''svc'')])
     example_state)) = []"
  by (simp add: model_defs example_state_def failing_cleaner_lib_def example_lib_def)

section \<open>Importing the module (lines 16 to 25)\<close>

text \<open>
  Claim C10: when the process is not already in \<open>WORKING_DIR\<close> and cannot change to it
  (the directory does not exist), loading the module raises SystemExit, so a caller that
  imports the module never reaches \<open>setup_logger\<close>. A process whose own working directory
  exists cannot be in a directory that does not, so the first hypothesis follows from the
  second for such a process.
\<close>

theorem import_exits_without_working_dir:
  assumes "cwd p \<noteq> WORKING_DIR" and "WORKING_DIR \<notin> set (dirs p)"
  shows "load_module p = Inl SystemExit \<and> import_and_setup L conf p = (Inl SystemExit, p)"
  using assms
  by (simp add: import_and_setup_def load_module_def switch_working_dir_def chdir_def)

theorem import_exits_without_working_dir_witness:
  "cwd (example_process\<lparr>dirs := [''/home/user'']\<rparr>) \<noteq> WORKING_DIR \<and>
   WORKING_DIR \<notin> set (dirs (example_process\<lparr>dirs := [''/home/user'']\<rparr>)) \<and>
   load_module (example_process\<lparr>dirs := [''/home/user'']\<rparr>) = Inl SystemExit \<and>
   import_and_setup example_lib (Some [(''script_name'', PStr ''svc'')])
       (example_process\<lparr>dirs := [''/home/user'']\<rparr>)
     = (Inl SystemExit, example_process\<lparr>dirs := [''/home/user'']\<rparr>)"
proof -
  have a: "cwd (example_process\<lparr>dirs := [''/home/user'']\<rparr>) \<noteq> WORKING_DIR"
    by (simp add: example_process_def WORKING_DIR_def)
  have b: "WORKING_DIR \<notin> set (dirs (example_process\<lparr>dirs := [''/home/user'']\<rparr>))"
    by (simp add: example_process_def WORKING_DIR_def)
  from import_exits_without_working_dir
         [OF a b, of example_lib "Some [(''script_name'', PStr ''svc'')]"] a b
  show ?thesis by simp
qed

section \<open>The check of script_name (lines 83 to 85)\<close>

text \<open>
  Claim C2, as amended: for a configuration that does not supply \<^verbatim>\<open>log_path\<close> and whose
  merged \<^verbatim>\<open>script_name\<close> is \<^verbatim>\<open>None\<close> or the empty string, when the retention cleaner
  returns, \<open>setup_logger\<close> raises ValueError (the ConfigurationError of the specification).
  At that point the cleaner has been called and nothing else has happened: no directory
  was made, no file opened, the root logger's handlers and level and the levels of the
  named loggers are what they were, and every object of the store is unchanged.
\<close>

theorem missing_script_name_raises_value_error:
  assumes "\<not> supplies conf ''log_path''"
    and "map_of (deref (objects s) (DEFAULT_CONFIG s)) ''log_path'' = Some root"
    and "clean_logs L root = None"
    and "map_of (merged_config conf s) ''script_name'' = Some v"
    and "v = PNone \<or> v = PStr []"
  shows "\<exists>s'. setup_logger L conf s = (Inl ValueError, s') \<and>
           effects s' = effects s @ [CleanLogs root] \<and>
           root_handlers s' = root_handlers s \<and>
           root_level s' = root_level s \<and>
           logger_levels s' = logger_levels s \<and>
           objects_kept s s'"
proof -
  from assms(1,2) have root: "clean_root conf s = Inr root"
    by (simp add: clean_root_def getitem_def)
  from assms(5) have falsy: "\<not> truthy (objects s @ [merged_config conf s]) v"
    by auto
  have "setup_logger L conf s =
      (Inl ValueError,
       (record_effect (CleanLogs root) s)\<lparr>objects := objects s @ [merged_config conf s]\<rparr>)"
    by (simp add: setup_logger_unfold root assms(3,4) falsy)
  then show ?thesis
    by (simp add: record_effect_def objects_kept_def)
qed

theorem missing_script_name_raises_value_error_witness:
  "\<not> supplies None ''log_path'' \<and>
   map_of (deref (objects example_state) (DEFAULT_CONFIG example_state)) ''log_path''
     = Some (PStr ''logs'') \<and>
   clean_logs example_lib (PStr ''logs'') = None \<and>
   map_of (merged_config None example_state) ''script_name'' = Some PNone \<and>
   (\<exists>s'. setup_logger example_lib None example_state = (Inl ValueError, s') \<and>
         effects s' = effects example_state @ [CleanLogs (PStr ''logs'')] \<and>
         root_handlers s' = root_handlers example_state \<and>
         root_level s' = root_level example_state \<and>
         logger_levels s' = logger_levels example_state \<and>
         objects_kept example_state s')"
proof -
  have a: "\<not> supplies None ''log_path''" by simp
  have b: "map_of (deref (objects example_state) (DEFAULT_CONFIG example_state)) ''log_path''
     = Some (PStr ''logs'')"
    by (simp add: example_state_def model_defs)
  have c: "clean_logs example_lib (PStr ''logs'') = None"
    by (simp add: example_lib_def)
  have d: "map_of (merged_config None example_state) ''script_name'' = Some PNone"
    by (simp add: example_state_def model_defs merged_config_def)
  have e: "PNone = PNone \<or> PNone = PStr []" by simp
  from missing_script_name_raises_value_error [OF a b c d e] a b c d
  show ?thesis by simp
qed

text \<open>
  The claim as stated promises the ValueError for every such configuration. It fails when
  the cleaner raises: the missing \<^verbatim>\<open>script_name\<close> is then never looked at, and the caller
  gets the cleaner's error.
\<close>

theorem missing_script_name_cleaner_error_counterexample:
  "map_of (merged_config None example_state) ''script_name'' = Some PNone \<and>
   fst (setup_logger failing_cleaner_lib None example_state) = Inl RetentionCleanupError \<and>
   fst (setup_logger failing_cleaner_lib None example_state) \<noteq> Inl ValueError"
  by (simp add: model_defs example_state_def failing_cleaner_lib_def example_lib_def)

section \<open>The log directory and the log file (lines 94 to 109)\<close>

lemma isabs_join2: "isabs (join2 a b) \<longleftrightarrow> isabs a \<or> isabs b"
  by (cases a; cases b) (auto simp: isabs_def join2_def)

lemma isabs_os_path_join3:
  "isabs (os_path_join a [b, c, d]) \<longleftrightarrow> isabs a \<or> isabs b \<or> isabs c \<or> isabs d"
  by (simp add: os_path_join_def isabs_join2)

lemma isabs_os_path_join1: "isabs (os_path_join a [b]) \<longleftrightarrow> isabs a \<or> isabs b"
  by (simp add: os_path_join_def isabs_join2)

lemma example_layout:
  assumes "lp \<noteq> []" and "last lp \<noteq> CHR ''/''"
  shows "os_path_join lp [''svc'', ''20240305'', ''14''] = lp @ ''/svc/20240305/14''"
    and "os_path_join (lp @ ''/svc/20240305/14'') [''2207'' @ ''.log'']
           = lp @ ''/svc/20240305/14/2207.log''"
  using assms by (simp_all add: os_path_join_def join2_def)

text \<open>
  The default formats are simple, so their rendering does not depend on the platform; a
  format with a flag is the platform's business as a whole.
\<close>

lemma strftime_default_formats:
  "strftime platform t ''%Y%m%d'' = Inr (pad4 (year t) @ pad2 (month t) @ pad2 (day t))"
  "strftime platform t ''%H'' = Inr (pad2 (hour t))"
  "strftime platform t ''%M%S'' = Inr (pad2 (minute t) @ pad2 (second t))"
  by (simp_all add: strftime_def known_directive_def directive_def)

lemma strftime_flag_is_platform: "strftime platform t ''%-d'' = platform ''%-d''"
  by (simp add: strftime_def known_directive_def)

text \<open>
  Claim C3, as amended: after a call that returns, \<^verbatim>\<open>log_dir\<close> is \<^verbatim>\<open>log_path\<close> joined
  with \<^verbatim>\<open>script_name\<close>, the current time rendered with \<^verbatim>\<open>date_format\<close> and the current
  time rendered with \<^verbatim>\<open>time_format\<close>; \<^verbatim>\<open>log_file\<close> is \<^verbatim>\<open>log_dir\<close> joined with the current
  time rendered with \<^verbatim>\<open>file_format\<close> followed by \<^verbatim>\<open>.log\<close>; the log root and the log
  directory were made, in this order, before the file was opened. The renderings are what
  \<^verbatim>\<open>strftime\<close> returned for the three formats in this call. The two paths are what the
  join gives: absolute exactly when \<^verbatim>\<open>log_path\<close> or a later segment is absolute, and
  relative otherwise.
\<close>

theorem log_dir_and_log_file_of_run:
  assumes "setup_logger L conf s = (Inr r, s')"
  shows "\<exists>root lp sn df tf ff enc date time name.
      map_of (deref (objects s') (config r)) ''log_path'' = Some (PStr lp) \<and>
      map_of (deref (objects s') (config r)) ''script_name'' = Some (PStr sn) \<and>
      map_of (deref (objects s') (config r)) ''date_format'' = Some (PStr df) \<and>
      map_of (deref (objects s') (config r)) ''time_format'' = Some (PStr tf) \<and>
      map_of (deref (objects s') (config r)) ''file_format'' = Some (PStr ff) \<and>
      map_of (deref (objects s') (config r)) ''encoding'' = Some enc \<and>
      render_now L df = Inr date \<and>
      render_now L tf = Inr time \<and>
      render_now L ff = Inr name \<and>
      log_dir r = os_path_join lp [sn, date, time] \<and>
      log_file r = os_path_join (log_dir r) [name @ ''.log''] \<and>
      effects s' = effects s @
        [CleanLogs root, MakeDirs lp, MakeDirs (log_dir r), OpenFile (log_file r) enc] \<and>
      (isabs (log_dir r) \<longleftrightarrow> isabs lp \<or> isabs sn \<or> isabs date \<or> isabs time) \<and>
      (isabs (log_file r) \<longleftrightarrow> isabs (log_dir r) \<or> isabs (name @ ''.log''))"
  using assms
proof (cases rule: setup_logger_success)
  case (1 root sn lp df tf ff enc fl fmt cl ce a file_level console_level date time name)
  have abs_dir: "isabs (log_dir r) \<longleftrightarrow> isabs lp \<or> isabs sn \<or> isabs date \<or> isabs time"
    unfolding "1"(21) by (rule isabs_os_path_join3)
  have abs_file: "isabs (log_file r) \<longleftrightarrow> isabs (log_dir r) \<or> isabs (name @ ''.log'')"
    by (subst "1"(22)) (rule isabs_os_path_join1)
  show ?thesis
    apply (rule exI [of _ root], rule exI [of _ lp], rule exI [of _ sn], rule exI [of _ df])
    apply (rule exI [of _ tf], rule exI [of _ ff], rule exI [of _ enc])
    apply (rule exI [of _ date], rule exI [of _ time], rule exI [of _ name])
    using "1"(6,7,9,10,11,12,13,21,22,24,28,29,30) abs_dir abs_file
    apply (intro conjI)
    apply simp_all
    done
qed

theorem log_dir_and_log_file_of_run_witness:
  "setup_logger example_lib
      (Some [(''script_name'', PStr ''svc''), (''console_enabled'', PBool False)]) example_state
    = (Inr \<lparr>log_file = ''logs/svc/20240305/14/2207.log'', log_dir = ''logs/svc/20240305/14'',
            config = 2\<rparr>,
       snd (setup_logger example_lib
         (Some [(''script_name'', PStr ''svc''), (''console_enabled'', PBool False)])
         example_state)) \<and>
   render_now example_lib ''%Y%m%d'' = Inr ''20240305'' \<and>
   render_now example_lib ''%H'' = Inr ''14'' \<and>
   render_now example_lib ''%M%S'' = Inr ''2207'' \<and>
   (\<exists>lp sn df tf ff date time name.
      render_now example_lib df = Inr date \<and>
      render_now example_lib tf = Inr time \<and>
      render_now example_lib ff = Inr name \<and>
      ''logs/svc/20240305/14'' = os_path_join lp [sn, date, time] \<and>
      ''logs/svc/20240305/14/2207.log'' = os_path_join ''logs/svc/20240305/14''
        [name @ ''.log''])"
proof -
  let ?conf = "Some [(''script_name'', PStr ''svc''), (''console_enabled'', PBool False)]"
  let ?r = "\<lparr>log_file = ''logs/svc/20240305/14/2207.log'', log_dir = ''logs/svc/20240305/14'',
            config = 2\<rparr>"
  have run: "setup_logger example_lib ?conf example_state
      = (Inr ?r, snd (setup_logger example_lib ?conf example_state))"
    using example_run by (simp add: prod_eq_iff)
  have renders: "render_now example_lib ''%Y%m%d'' = Inr ''20240305''"
    "render_now example_lib ''%H'' = Inr ''14''"
    "render_now example_lib ''%M%S'' = Inr ''2207''"
    by (simp_all add: render_now_def strftime_default_formats example_lib_def pad4_def pad2_def
          digit_def)
  from log_dir_and_log_file_of_run [OF run]
  have "\<exists>lp sn df tf ff date time name.
      render_now example_lib df = Inr date \<and>
      render_now example_lib tf = Inr time \<and>
      render_now example_lib ff = Inr name \<and>
      ''logs/svc/20240305/14'' = os_path_join lp [sn, date, time] \<and>
      ''logs/svc/20240305/14/2207.log'' = os_path_join ''logs/svc/20240305/14''
        [name @ ''.log'']"
    by simp blast
  with run renders show ?thesis by simp
qed

text \<open>
  The specification's example with the default \<^verbatim>\<open>log_path\<close>: the paths are
  \<^verbatim>\<open>logs/svc/20240305/14\<close> and \<^verbatim>\<open>logs/svc/20240305/14/2207.log\<close>, and neither is an
  absolute path, against the claim as stated.
\<close>

theorem relative_log_dir_counterexample:
  "fst (setup_logger example_lib
      (Some [(''script_name'', PStr ''svc''), (''console_enabled'', PBool False)]) example_state)
    = Inr \<lparr>log_file = ''logs/svc/20240305/14/2207.log'', log_dir = ''logs/svc/20240305/14'',
           config = 2\<rparr> \<and>
   \<not> isabs ''logs/svc/20240305/14'' \<and> \<not> isabs ''logs/svc/20240305/14/2207.log''"
  using example_run by (simp add: isabs_def)

section \<open>The merged configuration (lines 78 to 81)\<close>

lemma default_config_keys: "map fst (default_config lp d) = recognized_options"
  by (simp add: default_config_def dict_literal_def dict_update_def recognized_options_def)

lemma load_module_defaults:
  assumes "load_module p = Inr s"
  shows "deref (objects s) (DEFAULT_CONFIG s)
           = default_config (getenv (load_dotenv (environ p) (dotenv_file p)) ''LOG_PATH'' ''logs'')
               (length (objects p))"
    and "deref (objects s) (length (objects p)) = default_disabled_loggers"
proof -
  from assms obtain s1 where
    s1: "switch_working_dir p = Inr s1" and
    s: "s = build_default_config (s1\<lparr>environ := load_dotenv (environ s1) (dotenv_file s1)\<rparr>)"
    by (auto simp: load_module_def split: sum.splits)
  from s1 have same: "objects s1 = objects p" "environ s1 = environ p"
    "dotenv_file s1 = dotenv_file p"
    by (auto simp: switch_working_dir_def chdir_def split: if_splits)
  show "deref (objects s) (DEFAULT_CONFIG s)
           = default_config (getenv (load_dotenv (environ p) (dotenv_file p)) ''LOG_PATH'' ''logs'')
               (length (objects p))"
    by (simp add: s same build_default_config_def alloc_def deref_def nth_append)
  show "deref (objects s) (length (objects p)) = default_disabled_loggers"
    by (simp add: s same build_default_config_def alloc_def deref_def nth_append)
qed

text \<open>
  Claim C4, as amended: in the configuration a call returns, every key has the caller's
  value when the caller supplied the key and the default's value otherwise, and the keys
  are those of the defaults together with those the caller supplied. So no key is dropped,
  \<^verbatim>\<open>disabled_loggers\<close> supplied by the caller replaces the default mapping as a whole, and a
  key the caller supplies beyond the recognized options is kept.
\<close>

theorem merged_config_overrides_defaults:
  assumes "setup_logger L conf s = (Inr r, s')" and "distinct (map fst (supplied conf))"
  shows "map_of (deref (objects s') (config r)) k =
           (case map_of (supplied conf) k of
              Some v \<Rightarrow> Some v
            | None \<Rightarrow> map_of (deref (objects s) (DEFAULT_CONFIG s)) k) \<and>
         fst ` set (deref (objects s') (config r)) =
           fst ` set (deref (objects s) (DEFAULT_CONFIG s)) \<union> fst ` set (supplied conf)"
  using assms(1)
proof (cases rule: setup_logger_success)
  case (1 root sn lp df tf ff enc fl fmt cl ce a file_level console_level date time name)
  show ?thesis
    unfolding "1"(6) merged_config_def
    using map_of_merged [OF assms(2)] keys_merged by simp
qed

theorem merged_config_overrides_defaults_witness:
  "setup_logger example_lib
      (Some [(''script_name'', PStr ''svc''), (''disabled_loggers'', PRef 2)]) caller_state
    = (Inr \<lparr>log_file = ''logs/svc/20240305/14/2207.log'', log_dir = ''logs/svc/20240305/14'',
            config = 3\<rparr>,
       snd (setup_logger example_lib
         (Some [(''script_name'', PStr ''svc''), (''disabled_loggers'', PRef 2)]) caller_state)) \<and>
   distinct (map fst (supplied (Some [(''script_name'', PStr ''svc''),
     (''disabled_loggers'', PRef 2)]))) \<and>
   map_of (deref (objects (snd (setup_logger example_lib
       (Some [(''script_name'', PStr ''svc''), (''disabled_loggers'', PRef 2)]) caller_state))) 3)
     ''disabled_loggers'' = Some (PRef 2) \<and>
   map_of (deref (objects (snd (setup_logger example_lib
       (Some [(''script_name'', PStr ''svc''), (''disabled_loggers'', PRef 2)]) caller_state))) 3)
     ''console_level'' = Some (PInt INFO)"
proof -
  let ?conf = "Some [(''script_name'', PStr ''svc''), (''disabled_loggers'', PRef 2)]"
  let ?r = "\<lparr>log_file = ''logs/svc/20240305/14/2207.log'', log_dir = ''logs/svc/20240305/14'',
            config = 3\<rparr>"
  have "fst (setup_logger example_lib ?conf caller_state) = Inr ?r"
    by (simp add: model_defs example_lib_def example_state_def caller_state_def)
  then have run: "setup_logger example_lib ?conf caller_state
      = (Inr ?r, snd (setup_logger example_lib ?conf caller_state))"
    by (simp add: prod_eq_iff)
  have keys: "distinct (map fst (supplied ?conf))" by simp
  have dflt: "map_of (deref (objects caller_state) (DEFAULT_CONFIG caller_state)) ''console_level''
      = Some (PInt INFO)"
    by (simp add: caller_state_def example_state_def model_defs)
  from merged_config_overrides_defaults [OF run keys, of "''disabled_loggers''"]
       merged_config_overrides_defaults [OF run keys, of "''console_level''"]
       run keys dflt
  show ?thesis by simp
qed

text \<open>
  The claim as stated excludes keys beyond the recognized options; \<^verbatim>\<open>colour\<close>, supplied
  by the caller, is in the merged configuration.
\<close>

theorem unrecognized_key_kept_counterexample:
  "(case setup_logger example_lib
      (Some [(''script_name'', PStr ''svc''), (''colour'', PBool True)]) example_state of
     (Inr r, s') \<Rightarrow>
        map_of (deref (objects s') (config r)) ''colour'' = Some (PBool True) \<and>
        ''colour'' \<notin> set recognized_options
   | (Inl e, s') \<Rightarrow> False)"
  by (simp add: model_defs example_lib_def example_state_def recognized_options_def)

section \<open>Calling setup_logger again (lines 87 to 92)\<close>

text \<open>
  Claim C5, as amended: whatever an earlier call did, after a second call that returns the
  root logger's handlers are exactly those this call attached: the file handler for this
  call's \<^verbatim>\<open>log_file\<close>, followed by the console handler when \<^verbatim>\<open>console_enabled\<close> is truthy.
  The call sets the root logger's level to DEBUG (line 89) and the loop of lines 127 and
  128 then runs from that level: afterwards the level is the one this call's
  \<^verbatim>\<open>disabled_loggers\<close> lists last for the root logger (the empty name or \<^verbatim>\<open>root\<close>), and
  DEBUG when the mapping does not name the root logger.
\<close>

theorem second_call_replaces_handlers:
  assumes "setup_logger L1 conf1 s = (res1, s1)"
    and "setup_logger L2 conf2 s1 = (Inr r2, s2)"
  shows "\<exists>enc fl file_level fmt cl console_level ce a.
      map_of (deref (objects s2) (config r2)) ''encoding'' = Some enc \<and>
      map_of (deref (objects s2) (config r2)) ''file_level'' = Some fl \<and>
      checkLevel fl = Inr file_level \<and>
      map_of (deref (objects s2) (config r2)) ''formatter'' = Some fmt \<and>
      map_of (deref (objects s2) (config r2)) ''console_level'' = Some cl \<and>
      checkLevel cl = Inr console_level \<and>
      map_of (deref (objects s2) (config r2)) ''console_enabled'' = Some ce \<and>
      map_of (deref (objects s2) (config r2)) ''disabled_loggers'' = Some (PRef a) \<and>
      root_handlers s2 = FileHandler (log_file r2) enc file_level fmt #
        (if truthy (objects s2) ce then [StreamHandler console_level fmt] else []) \<and>
      root_level s2 = listed_root_level (deref (objects s2) a) DEBUG \<and>
      (names_root (deref (objects s2) a) \<or> root_level s2 = DEBUG)"
  using assms(2)
proof (cases rule: setup_logger_success)
  case (1 root sn lp df tf ff enc fl fmt cl ce a file_level console_level date time name)
  show ?thesis
    apply (rule exI [of _ enc], rule exI [of _ fl], rule exI [of _ file_level])
    apply (rule exI [of _ fmt], rule exI [of _ cl], rule exI [of _ console_level])
    apply (rule exI [of _ ce], rule exI [of _ a])
    using "1"(6,13,14,15,16,17,18,19,20,23,27,31)
    apply (intro conjI)
    apply simp_all
    done
qed

theorem second_call_replaces_handlers_witness:
  "setup_logger example_lib (Some [(''script_name'', PStr ''svc'')]) example_state
     = (fst (setup_logger example_lib (Some [(''script_name'', PStr ''svc'')]) example_state),
        snd (setup_logger example_lib (Some [(''script_name'', PStr ''svc'')]) example_state)) \<and>
   fst (setup_logger example_lib
          (Some [(''script_name'', PStr ''job''), (''console_enabled'', PBool False)])
          (snd (setup_logger example_lib (Some [(''script_name'', PStr ''svc'')]) example_state)))
     = Inr \<lparr>log_file = ''logs/job/20240305/14/2207.log'', log_dir = ''logs/job/20240305/14'',
            config = 3\<rparr> \<and>
   root_handlers (snd (setup_logger example_lib (Some [(''script_name'', PStr ''svc'')])
       example_state))
     = [FileHandler ''logs/svc/20240305/14/2207.log'' (PStr ''utf-8'') DEBUG
          (PStr ''%(asctime)s - %(levelname)s - %(message)s''),
        StreamHandler INFO (PStr ''%(asctime)s - %(levelname)s - %(message)s'')] \<and>
   root_handlers (snd (setup_logger example_lib
          (Some [(''script_name'', PStr ''job''), (''console_enabled'', PBool False)])
          (snd (setup_logger example_lib (Some [(''script_name'', PStr ''svc'')]) example_state))))
     = [FileHandler ''logs/job/20240305/14/2207.log'' (PStr ''utf-8'') DEBUG
          (PStr ''%(asctime)s - %(levelname)s - %(message)s'')] \<and>
   root_level (snd (setup_logger example_lib
          (Some [(''script_name'', PStr ''job''), (''console_enabled'', PBool False)])
          (snd (setup_logger example_lib (Some [(''script_name'', PStr ''svc'')]) example_state))))
     = DEBUG"
proof -
  let ?c1 = "Some [(''script_name'', PStr ''svc'')]"
  let ?c2 = "Some [(''script_name'', PStr ''job''), (''console_enabled'', PBool False)]"
  let ?s1 = "snd (setup_logger example_lib ?c1 example_state)"
  let ?s2 = "snd (setup_logger example_lib ?c2 ?s1)"
  let ?r2 = "\<lparr>log_file = ''logs/job/20240305/14/2207.log'', log_dir = ''logs/job/20240305/14'',
            config = 3\<rparr>"
  have first: "setup_logger example_lib ?c1 example_state
      = (fst (setup_logger example_lib ?c1 example_state), ?s1)"
    by simp
  have s1: "?s1 = example_state
      \<lparr>objects := objects example_state @ [merged_config ?c1 example_state],
       root_level := DEBUG,
       root_handlers :=
         [FileHandler ''logs/svc/20240305/14/2207.log'' (PStr ''utf-8'') DEBUG
            (PStr ''%(asctime)s - %(levelname)s - %(message)s''),
          StreamHandler INFO (PStr ''%(asctime)s - %(levelname)s - %(message)s'')],
       logger_levels := [(''PIL'', 30), (''urllib3'', 30), (''fsspec'', 30), (''requests'', 30),
          (''chardet'', 30), (''vipshome'', 30), (''pyvips'', 30)],
       effects := [CleanLogs (PStr ''logs''), MakeDirs ''logs'', MakeDirs ''logs/svc/20240305/14'',
          OpenFile ''logs/svc/20240305/14/2207.log'' (PStr ''utf-8'')]\<rparr>"
    by (simp add: model_defs example_lib_def example_state_def)
  have res2: "fst (setup_logger example_lib ?c2 ?s1) = Inr ?r2"
    unfolding s1 by (simp add: model_defs example_lib_def example_state_def)
  then have second: "setup_logger example_lib ?c2 ?s1 = (Inr ?r2, ?s2)"
    by (simp add: prod_eq_iff)
  have h1: "root_handlers ?s1
     = [FileHandler ''logs/svc/20240305/14/2207.log'' (PStr ''utf-8'') DEBUG
          (PStr ''%(asctime)s - %(levelname)s - %(message)s''),
        StreamHandler INFO (PStr ''%(asctime)s - %(levelname)s - %(message)s'')]"
    unfolding s1 by simp
  have cfg2: "deref (objects ?s2) 3 = merged_config ?c2 ?s1"
    using second by (cases rule: setup_logger_success) simp
  have m2: "merged_config ?c2 ?s1 =
      [(''script_name'', PStr ''job''), (''console_enabled'', PBool False),
       (''log_path'', PStr ''logs''), (''date_format'', PStr ''%Y%m%d''),
       (''time_format'', PStr ''%H''), (''file_format'', PStr ''%M%S''),
       (''encoding'', PStr ''utf-8''),
       (''formatter'', PStr ''%(asctime)s - %(levelname)s - %(message)s''),
       (''file_level'', PInt 10), (''console_level'', PInt 20),
       (''disabled_loggers'', PRef 0)]"
    unfolding s1 by (simp add: model_defs example_state_def)
  have o2: "objects ?s2 = objects ?s1 @ [merged_config ?c2 ?s1]"
    using second by (cases rule: setup_logger_success) simp
  have d0: "deref (objects ?s2) 0 = default_disabled_loggers"
    unfolding o2 unfolding s1 by (simp add: deref_def example_state_def)
  have nr: "\<not> names_root default_disabled_loggers"
    by (simp add: names_root_def model_defs)
  from second_call_replaces_handlers [OF first second]
  have "root_handlers ?s2
     = [FileHandler ''logs/job/20240305/14/2207.log'' (PStr ''utf-8'') DEBUG
          (PStr ''%(asctime)s - %(levelname)s - %(message)s'')] \<and>
     root_level ?s2 = DEBUG"
    by (auto simp: cfg2 m2 d0 nr DEBUG_def)
  with first res2 h1 show ?thesis by simp
qed

text \<open>
  The claim as stated has the second call replace the handlers for every pair of valid
  configurations. When the retention cleaner raises in the second call, the call ends on
  line 76: the handlers of the first call are all still attached.
\<close>

theorem second_call_cleaner_error_counterexample:
  "(case setup_logger example_lib (Some [(''script_name'', PStr ''svc'')]) example_state of
      (Inr r1, s1) \<Rightarrow>
        fst (setup_logger failing_cleaner_lib (Some [(''script_name'', PStr ''job'')]) s1)
          = Inl RetentionCleanupError \<and>
        root_handlers (snd (setup_logger failing_cleaner_lib
            (Some [(''script_name'', PStr ''job'')]) s1))
          = [FileHandler ''logs/svc/20240305/14/2207.log'' (PStr ''utf-8'') DEBUG
               (PStr ''%(asctime)s - %(levelname)s - %(message)s''),
             StreamHandler INFO (PStr ''%(asctime)s - %(levelname)s - %(message)s'')]
    | (Inl e, s1) \<Rightarrow> False)"
  by (simp add: model_defs example_lib_def failing_cleaner_lib_def example_state_def)

text \<open>
  A mapping that names the root logger: with \<^verbatim>\<open>disabled_loggers = {'': 40}\<close> in the second
  configuration both calls return and the root logger's level is 40 afterwards.
\<close>

lemma root_level_override_example:
  "(case setup_logger example_lib (Some [(''script_name'', PStr ''svc'')]) root_override_state of
      (Inr r1, s1) \<Rightarrow>
        (case setup_logger example_lib
                (Some [(''script_name'', PStr ''svc''), (''disabled_loggers'', PRef 2)]) s1 of
           (Inr r2, s2) \<Rightarrow> root_level s2 = 40
         | (Inl e, s2) \<Rightarrow> False)
    | (Inl e, s1) \<Rightarrow> False)"
  by (simp add: model_defs example_lib_def example_state_def root_override_state_def)

section \<open>The default log root (lines 27 to 35)\<close>

lemma default_config_log_path: "map_of (default_config lp d) ''log_path'' = Some (PStr lp)"
  by (simp add: default_config_def dict_literal_def dict_update_def)

text \<open>
  Claim C8, as amended: when the configuration omits \<^verbatim>\<open>log_path\<close>, the merged
  \<^verbatim>\<open>log_path\<close> of a call that returns is the value \<^verbatim>\<open>LOG_PATH\<close> had when the module was
  loaded (the process environment first, then the \<^verbatim>\<open>.env\<close> file, then \<^verbatim>\<open>logs\<close>), whatever
  the environment \<open>E\<close> is at the time of the call.
\<close>

theorem default_log_path_read_at_import:
  assumes "load_module p = Inr s0"
    and "setup_logger L conf (s0\<lparr>environ := E\<rparr>) = (Inr r, s')"
    and "\<not> supplies conf ''log_path''"
  shows "map_of (deref (objects s') (config r)) ''log_path'' =
           Some (PStr (getenv (load_dotenv (environ p) (dotenv_file p)) ''LOG_PATH'' ''logs''))"
  using assms(2)
proof (cases rule: setup_logger_success)
  case (1 root sn lp df tf ff enc fl fmt cl ce a file_level console_level date time name)
  have "map_of (deref (objects s') (config r)) ''log_path''
      = map_of (deref (objects s0) (DEFAULT_CONFIG s0)) ''log_path''"
    unfolding "1"(6) merged_config_def
    using map_of_merged_not_supplied [OF assms(3)] by simp
  then show ?thesis
    by (simp add: load_module_defaults(1) [OF assms(1)] default_config_log_path)
qed

theorem default_log_path_read_at_import_witness:
  "load_module (example_process\<lparr>environ := [(''LOG_PATH'', ''/srv/logs'')]\<rparr>)
     = Inr (example_state
         \<lparr>objects := [default_disabled_loggers, default_config ''/srv/logs'' 0],
          environ := [(''LOG_PATH'', ''/srv/logs'')]\<rparr>) \<and>
   fst (setup_logger example_lib (Some [(''script_name'', PStr ''svc'')])
     (example_state
         \<lparr>objects := [default_disabled_loggers, default_config ''/srv/logs'' 0],
          environ := [(''LOG_PATH'', ''/srv/logs'')]\<rparr>\<lparr>environ := []\<rparr>))
     = Inr \<lparr>log_file = ''/srv/logs/svc/20240305/14/2207.log'',
            log_dir = ''/srv/logs/svc/20240305/14'', config = 2\<rparr> \<and>
   \<not> supplies (Some [(''script_name'', PStr ''svc'')]) ''log_path'' \<and>
   map_of (deref (objects (snd (setup_logger example_lib (Some [(''script_name'', PStr ''svc'')])
     (example_state
         \<lparr>objects := [default_disabled_loggers, default_config ''/srv/logs'' 0],
          environ := [(''LOG_PATH'', ''/srv/logs'')]\<rparr>\<lparr>environ := []\<rparr>)))) 2) ''log_path''
     = Some (PStr ''/srv/logs'') \<and>
   getenv [] ''LOG_PATH'' ''logs'' = ''logs''"
proof -
  let ?p = "example_process\<lparr>environ := [(''LOG_PATH'', ''/srv/logs'')]\<rparr>"
  let ?s0 = "example_state
         \<lparr>objects := [default_disabled_loggers, default_config ''/srv/logs'' 0],
          environ := [(''LOG_PATH'', ''/srv/logs'')]\<rparr>"
  let ?conf = "Some [(''script_name'', PStr ''svc'')]"
  let ?r = "\<lparr>log_file = ''/srv/logs/svc/20240305/14/2207.log'',
            log_dir = ''/srv/logs/svc/20240305/14'', config = 2\<rparr>"
  have load: "load_module ?p = Inr ?s0"
    by (simp add: load_module_def switch_working_dir_def chdir_def example_process_def
          example_state_def build_default_config_def load_dotenv_def getenv_def alloc_def
          WORKING_DIR_def)
  have res: "fst (setup_logger example_lib ?conf (?s0\<lparr>environ := []\<rparr>)) = Inr ?r"
    by (simp add: model_defs example_lib_def example_state_def)
  then have run: "setup_logger example_lib ?conf (?s0\<lparr>environ := []\<rparr>)
      = (Inr ?r, snd (setup_logger example_lib ?conf (?s0\<lparr>environ := []\<rparr>)))"
    by (simp add: prod_eq_iff)
  have omit: "\<not> supplies ?conf ''log_path''" by simp
  have env: "getenv (load_dotenv (environ ?p) (dotenv_file ?p)) ''LOG_PATH'' ''logs'' = ''/srv/logs''"
    by (simp add: example_process_def load_dotenv_def getenv_def)
  from default_log_path_read_at_import [OF load run omit] load res omit env
  show ?thesis by (simp add: getenv_def)
qed

text \<open>
  The claim as stated reads the environment at the time of the call. With \<^verbatim>\<open>LOG_PATH\<close>
  unset at import and set to \<^verbatim>\<open>/srv/logs\<close> before the call, the merged \<^verbatim>\<open>log_path\<close> is
  still \<^verbatim>\<open>logs\<close>.
\<close>

theorem log_path_env_change_ignored_counterexample:
  "load_module example_process = Inr example_state \<and>
   (case setup_logger example_lib (Some [(''script_name'', PStr ''svc'')])
           (example_state\<lparr>environ := [(''LOG_PATH'', ''/srv/logs'')]\<rparr>) of
      (Inr r, s') \<Rightarrow>
         map_of (deref (objects s') (config r)) ''log_path'' = Some (PStr ''logs'') \<and>
         getenv (environ s') ''LOG_PATH'' ''logs'' = ''/srv/logs''
    | (Inl e, s') \<Rightarrow> False)"
  using example_load
  by (simp add: model_defs example_lib_def example_state_def getenv_def)

section \<open>The returned information and the defaults (lines 78, 79 and 130 to 137)\<close>

lemma objects_kept_deref:
  assumes "objects_kept s s'" and "a < length (objects s)"
  shows "deref (objects s') a = deref (objects s) a"
proof -
  from assms(1) have eq: "take (length (objects s)) (objects s') = objects s"
    by (simp add: objects_kept_def)
  then have "length (objects s) \<le> length (objects s')"
    by (metis length_take min.cobounded1)
  with assms(2) have "a < length (objects s')" by simp
  moreover have "objects s' ! a = objects s ! a"
    using assms(2) eq by (metis nth_take)
  ultimately show ?thesis using assms(2) by (simp add: deref_def)
qed

lemma setup_logger_objects_kept: "objects_kept s (snd (setup_logger L conf s))"
proof -
  have conf_objs: "objects (snd (configure L cfg c t)) = objects t" for cfg c t
    using configure_objects [of L cfg c] by (simp add: keeps_def)
  show ?thesis
    by (simp add: setup_logger_unfold objects_kept_def record_effect_def conf_objs
          split: sum.splits option.splits)
qed

lemma setup_logger_default_config_kept:
  "DEFAULT_CONFIG (snd (setup_logger L conf s)) = DEFAULT_CONFIG s"
proof -
  have "keeps (\<lambda>s s'. DEFAULT_CONFIG s' = DEFAULT_CONFIG s) (configure L cfg c)" for cfg c
    by (rule keeps_configure)
       (simp_all add: reset_root_logger_def record_effect_def addHandler_def
          set_logger_level_def)
  then have conf_dc: "DEFAULT_CONFIG (snd (configure L cfg c t)) = DEFAULT_CONFIG t" for cfg c t
    by (simp add: keeps_def)
  show ?thesis
    by (simp add: setup_logger_unfold record_effect_def conf_dc split: sum.splits option.splits)
qed

text \<open>
  Claim C9, as amended: whatever a later call of \<open>setup_logger\<close> does and however it ends,
  it changes no object that existed before it, so the configuration of an earlier run (and
  every mapping it refers to) stays as it was; \<^verbatim>\<open>log_file\<close> and \<^verbatim>\<open>log_dir\<close> are strings.
  The configuration is a dictionary of its own, not the module's \<open>DEFAULT_CONFIG\<close>, which
  later calls leave bound to the same object. The copy of line 79 is shallow: unless the
  caller supplied \<^verbatim>\<open>disabled_loggers\<close>, the run's configuration and \<open>DEFAULT_CONFIG\<close> hold
  the same value under that key, a reference to one and the same mapping.
\<close>

theorem later_calls_keep_run_info:
  assumes "setup_logger L conf s = (Inr r, s')"
    and "setup_logger L2 conf2 s' = (res2, s'')"
  shows "deref (objects s'') (config r) = deref (objects s') (config r) \<and>
         objects_kept s' s'' \<and>
         config r \<noteq> DEFAULT_CONFIG s' \<and>
         DEFAULT_CONFIG s'' = DEFAULT_CONFIG s' \<and>
         (supplies conf ''disabled_loggers'' \<or>
          map_of (deref (objects s') (config r)) ''disabled_loggers''
            = map_of (deref (objects s') (DEFAULT_CONFIG s')) ''disabled_loggers'')"
  using assms(1)
proof (cases rule: setup_logger_success)
  case (1 root sn lp df tf ff enc fl fmt cl ce a file_level console_level date time name)
  from assms(2) have s'': "s'' = snd (setup_logger L2 conf2 s')" by simp
  have kept: "objects_kept s' s''"
    unfolding s'' by (rule setup_logger_objects_kept)
  have inside: "config r < length (objects s')"
    by (simp add: "1"(4,5))
  have same: "deref (objects s'') (config r) = deref (objects s') (config r)"
    using kept inside by (rule objects_kept_deref)
  have dc_valid: "DEFAULT_CONFIG s < length (objects s)"
  proof (rule ccontr)
    assume "\<not> DEFAULT_CONFIG s < length (objects s)"
    then have "deref (objects s) (DEFAULT_CONFIG s) = []" by (simp add: deref_def)
    with "1"(2) show False by simp
  qed
  then have fresh: "config r \<noteq> DEFAULT_CONFIG s'"
    by (simp add: "1"(4,25))
  have dc: "DEFAULT_CONFIG s'' = DEFAULT_CONFIG s'"
    unfolding s'' by (rule setup_logger_default_config_kept)
  have old: "deref (objects s') (DEFAULT_CONFIG s') = deref (objects s) (DEFAULT_CONFIG s)"
    using dc_valid by (simp add: "1"(5,25) deref_append_old)
  have shared: "supplies conf ''disabled_loggers'' \<or>
          map_of (deref (objects s') (config r)) ''disabled_loggers''
            = map_of (deref (objects s') (DEFAULT_CONFIG s')) ''disabled_loggers''"
    unfolding "1"(6) old merged_config_def
    using map_of_merged_not_supplied [of conf "''disabled_loggers''"] by blast
  from same kept fresh dc shared show ?thesis by simp
qed

theorem later_calls_keep_run_info_witness:
  "fst (setup_logger example_lib (Some [(''script_name'', PStr ''svc'')]) example_state)
     = Inr \<lparr>log_file = ''logs/svc/20240305/14/2207.log'', log_dir = ''logs/svc/20240305/14'',
            config = 2\<rparr> \<and>
   deref (objects (snd (setup_logger example_lib
       (Some [(''script_name'', PStr ''job''), (''console_enabled'', PBool False)])
       (snd (setup_logger example_lib (Some [(''script_name'', PStr ''svc'')]) example_state))))) 2
     = deref (objects (snd (setup_logger example_lib (Some [(''script_name'', PStr ''svc'')])
         example_state))) 2 \<and>
   (2::nat) \<noteq> DEFAULT_CONFIG (snd (setup_logger example_lib (Some [(''script_name'', PStr ''svc'')])
         example_state))"
proof -
  let ?c1 = "Some [(''script_name'', PStr ''svc'')]"
  let ?c2 = "Some [(''script_name'', PStr ''job''), (''console_enabled'', PBool False)]"
  let ?s1 = "snd (setup_logger example_lib ?c1 example_state)"
  let ?r = "\<lparr>log_file = ''logs/svc/20240305/14/2207.log'', log_dir = ''logs/svc/20240305/14'',
            config = 2\<rparr>"
  have res: "fst (setup_logger example_lib ?c1 example_state) = Inr ?r"
    by (simp add: model_defs example_lib_def example_state_def)
  then have first: "setup_logger example_lib ?c1 example_state = (Inr ?r, ?s1)"
    by (simp add: prod_eq_iff)
  have second: "setup_logger example_lib ?c2 ?s1
      = (fst (setup_logger example_lib ?c2 ?s1), snd (setup_logger example_lib ?c2 ?s1))"
    by simp
  from later_calls_keep_run_info [OF first second] res show ?thesis by simp
qed

text \<open>
  The claim as stated has the configuration share no mutable state with the defaults.
  After \<^verbatim>\<open>setup_logger({'script_name': 'svc'})\<close>, the caller's assignment
  \<^verbatim>\<open>config_info['config']['disabled_loggers']['PIL'] = logging.DEBUG\<close> changes what
  \<^verbatim>\<open>DEFAULT_CONFIG['disabled_loggers']['PIL']\<close> reads, from WARNING to DEBUG.
\<close>

theorem default_disabled_loggers_shared_counterexample:
  "(case setup_logger example_lib (Some [(''script_name'', PStr ''svc'')]) example_state of
      (Inr r, s') \<Rightarrow>
         nested_getitem (objects s') (DEFAULT_CONFIG s') ''disabled_loggers'' ''PIL''
           = Inr (PInt WARNING) \<and>
         (case nested_setitem (objects s') (config r) ''disabled_loggers'' ''PIL'' (PInt DEBUG) of
            Inr h \<Rightarrow>
              nested_getitem h (DEFAULT_CONFIG s') ''disabled_loggers'' ''PIL'' = Inr (PInt DEBUG)
          | Inl e \<Rightarrow> False)
    | (Inl e, s') \<Rightarrow> False)"
  by (simp add: model_defs example_lib_def example_state_def nested_getitem_def
        nested_setitem_def)

end
